theory Spec2Isabelle
  imports Main "HOL-Library.Product_Lexorder" "HOL-Library.Multiset" "HOL-Library.Word"
begin

section \<open>Python values used by the backend\<close>

text \<open>
  Strings are lists of characters; a \<^typ>\<open>char\<close> stands for a code point below 256, so
  \<^term>\<open>length\<close> counts characters as Python's \<^verbatim>\<open>len\<close> does on such strings.
  \<^verbatim>\<open>str.isspace\<close> (and the regular expression class \<^verbatim>\<open>\s\<close>) hold on that range
  for tab, line feed, vertical tab, form feed, carriage return, the four separators
  0x1c..0x1f, space, 0x85 and 0xa0.
\<close>

definition isspace :: "char \<Rightarrow> bool" where
  "isspace c = ((of_char c :: nat) \<in> set [9, 10, 11, 12, 13, 28, 29, 30, 31, 32, 133, 160])"

text \<open>\<^verbatim>\<open>s.strip()\<close>: leading and trailing whitespace removed.\<close>

definition strip :: "string \<Rightarrow> string" where
  "strip s = rev (dropWhile isspace (rev (dropWhile isspace s)))"

text \<open>\<^verbatim>\<open>s.lower()\<close> on code points below 256: A..Z and the accented capitals
  0xc0..0xde (but not the multiplication sign 0xd7) move up by 32.\<close>

definition lower_char :: "char \<Rightarrow> char" where
  "lower_char c = (let n = (of_char c :: nat) in
     if (65 \<le> n \<and> n \<le> 90) \<or> (192 \<le> n \<and> n \<le> 222 \<and> n \<noteq> 215)
     then char_of (n + 32) else c)"

definition lower :: "string \<Rightarrow> string" where
  "lower s = map lower_char s"

text \<open>Truth value of an \<^verbatim>\<open>Optional[str]\<close>: \<^verbatim>\<open>None\<close> and the empty string are false.\<close>

definition truthy :: "string option \<Rightarrow> bool" where
  "truthy v = (case v of None \<Rightarrow> False | Some s \<Rightarrow> s \<noteq> [])"

text \<open>\<^verbatim>\<open>str(x)\<close> of an optional string: \<^verbatim>\<open>None\<close> prints as its name.\<close>

definition py_str :: "string option \<Rightarrow> string" where
  "py_str v = (case v of None \<Rightarrow> ''None'' | Some s \<Rightarrow> s)"

text \<open>\<^verbatim>\<open>str(n)\<close> of a natural number, in decimal.\<close>

definition digit_char :: "nat \<Rightarrow> char" where
  "digit_char d = ''0123456789'' ! d"

fun str_nat :: "nat \<Rightarrow> string" where
  "str_nat n = (if n < 10 then [digit_char n] else str_nat (n div 10) @ [digit_char (n mod 10)])"

declare str_nat.simps [simp del]

text \<open>\<^verbatim>\<open>secrets.token_hex(3)\<close>: three bytes of the system's entropy, each printed as two
  lowercase hexadecimal digits. The bytes are an input of the model.\<close>

type_synonym byte = "8 word"

definition hex_digit :: "nat \<Rightarrow> char" where
  "hex_digit d = ''0123456789abcdef'' ! d"

definition hex_byte :: "byte \<Rightarrow> string" where
  "hex_byte b = [hex_digit (unat b div 16), hex_digit (unat b mod 16)]"

definition token_hex :: "byte list \<Rightarrow> string" where
  "token_hex bs = concat (map hex_byte bs)"

text \<open>A \<^verbatim>\<open>date\<close> is its proleptic Gregorian ordinal (\<^verbatim>\<open>date.toordinal()\<close>), a
  \<^verbatim>\<open>datetime\<close> its timestamp: both are ordered as Python compares them. Integers are
  Python's unbounded ones.\<close>

type_synonym date = int
type_synonym datetime = int

text \<open>JSON values of the two JSONB columns of a profile.\<close>

datatype json = JNull | JBool bool | JInt int | JStr string | JList "json list"
  | JDict "(string \<times> json) list"

text \<open>\<^verbatim>\<open>query.first()\<close>: the first row of a result, or \<^verbatim>\<open>None\<close>.\<close>

definition first :: "'a list \<Rightarrow> 'a option" where
  "first rows = (case rows of [] \<Rightarrow> None | r # _ \<Rightarrow> Some r)"

section \<open>Models (\<^verbatim>\<open>app/models\<close>)\<close>

text \<open>The user model is not part of the sources; the profile model reads its \<^verbatim>\<open>id\<close>
  and its \<^verbatim>\<open>name\<close>.\<close>

record User =
  usr_id :: string
  usr_name :: "string option"

text \<open>A row of \<^verbatim>\<open>profiles\<close>. The two timestamp columns are filled in by the database and
  read by no function modelled here.\<close>

record Profile =
  prof_id :: string
  prof_user_id :: string
  prof_slug :: "string option"
  prof_headline :: "string option"
  prof_summary :: "string option"
  prof_location :: "string option"
  prof_visibility :: string
  prof_contact :: json
  prof_draft_data :: "json option"
  prof_profile_photo_url :: "string option"
  prof_completeness_score :: int

text \<open>A row of \<^verbatim>\<open>experiences\<close> (timestamps left out as above).\<close>

record Experience =
  exp_id :: string
  exp_profile_id :: string
  exp_company_name :: string
  exp_company_website :: "string option"
  exp_company_size :: "string option"
  exp_industry :: "string option"
  exp_company_location :: "string option"
  exp_position :: string
  exp_employment_type :: "string option"
  exp_start_date :: date
  exp_end_date :: "date option"
  exp_is_current :: bool
  exp_description :: "string option"
  exp_responsibilities :: "string list"
  exp_technologies :: "string list"
  exp_display_order :: int

datatype ProjectStatus = ACTIVE | STAGING | ARCHIVED
datatype ProjectCategory = DEMO | INTERNAL | PRODUCTION
datatype ProjectScale = SMALL | MEDIUM | LARGE | ENTERPRISE

text \<open>A row of \<^verbatim>\<open>projects\<close>; \<^verbatim>\<open>created_at\<close> orders the listing.\<close>

record Project =
  proj_id :: string
  proj_profile_id :: string
  proj_name :: string
  proj_description :: "string option"
  proj_status :: ProjectStatus
  proj_category :: ProjectCategory
  proj_scale :: ProjectScale
  proj_start_date :: "string option"
  proj_end_date :: "string option"
  proj_client :: "string option"
  proj_technologies :: "string list"
  proj_achievements :: "string list"
  proj_challenges :: "string list"
  proj_display_order :: int
  proj_created_at :: datetime

subsection \<open>\<^verbatim>\<open>Profile\<close> methods\<close>

text \<open>\<^verbatim>\<open>Profile.can_view\<close>. The viewer is an \<^verbatim>\<open>Optional[str]\<close>, the owner a non-null
  column.\<close>

definition can_view :: "Profile \<Rightarrow> string option \<Rightarrow> bool" where
  "can_view self viewer_user_id =
     (if prof_visibility self = ''PUBLIC'' then True
      else if prof_visibility self = ''PRIVATE'' then viewer_user_id = Some (prof_user_id self)
      else viewer_user_id = Some (prof_user_id self))"

definition is_public :: "Profile \<Rightarrow> bool" where
  "is_public self = (prof_visibility self = ''PUBLIC'')"

text \<open>\<^verbatim>\<open>Profile.calculate_completeness\<close>; the second argument is the relationship
  \<^verbatim>\<open>self.experiences\<close>.\<close>

definition calculate_completeness :: "Profile \<Rightarrow> Experience list \<Rightarrow> int" where
  "calculate_completeness self self_experiences =
     (let score = 0;
          score = (if truthy (prof_headline self) \<and> strip (the (prof_headline self)) \<noteq> []
                   then score + 10 else score);
          score = (if truthy (prof_summary self)
                      \<and> 100 < int (length (strip (the (prof_summary self))))
                   then score + 20 else score);
          experience_count = (if self_experiences \<noteq> [] then int (length self_experiences) else 0);
          score = score + min (experience_count * 10) 30
      in min score 100)"

text \<open>The two substitutions of \<^verbatim>\<open>Profile.generate_slug\<close>:
  \<^verbatim>\<open>re.sub(r"[^a-zA-Z0-9\s-]", "", s)\<close> and \<^verbatim>\<open>re.sub(r"\s+", "-", s)\<close>.\<close>

definition slug_char :: "char \<Rightarrow> bool" where
  "slug_char c = (let n = (of_char c :: nat) in
     (97 \<le> n \<and> n \<le> 122) \<or> (65 \<le> n \<and> n \<le> 90) \<or> (48 \<le> n \<and> n \<le> 57)
     \<or> isspace c \<or> c = CHR ''-'')"

function hyphenate :: "string \<Rightarrow> string" where
  "hyphenate [] = []"
| "hyphenate (c # cs) =
     (if isspace c then CHR ''-'' # hyphenate (dropWhile isspace cs) else c # hyphenate cs)"
  by pat_completeness auto
termination
  by (relation "measure length") (auto simp: less_Suc_eq_le length_dropWhile_le)

text \<open>\<^verbatim>\<open>Profile.generate_slug\<close>. It reads the relationship \<^verbatim>\<open>self.user\<close> and the column
  \<^verbatim>\<open>self.id\<close> of the object it is called on (either may still be \<^verbatim>\<open>None\<close>) and draws
  three random bytes.\<close>

definition generate_slug :: "User option \<Rightarrow> string option \<Rightarrow> byte \<times> byte \<times> byte \<Rightarrow> string" where
  "generate_slug self_user self_id entropy =
     (if self_user = None \<or> \<not> truthy (usr_name (the self_user)) then lower (py_str self_id)
      else
        let slug = filter slug_char (lower (the (usr_name (the self_user))));
            slug = hyphenate (strip slug);
            suffix = token_hex (case entropy of (b1, b2, b3) \<Rightarrow> [b1, b2, b3])
        in slug @ ''-'' @ suffix)"

subsection \<open>\<^verbatim>\<open>Experience\<close> methods\<close>

text \<open>The list columns are not nullable, so \<^verbatim>\<open>if not self.technologies: self.technologies = []\<close>
  leaves them as they are.\<close>

definition add_responsibility :: "Experience \<Rightarrow> string \<Rightarrow> Experience" where
  "add_responsibility self responsibility =
     (if strip responsibility \<noteq> [] \<and> responsibility \<notin> set (exp_responsibilities self)
      then self\<lparr>exp_responsibilities := exp_responsibilities self @ [strip responsibility]\<rparr>
      else self)"

definition remove_responsibility :: "Experience \<Rightarrow> string \<Rightarrow> Experience" where
  "remove_responsibility self responsibility =
     (if exp_responsibilities self \<noteq> [] \<and> responsibility \<in> set (exp_responsibilities self)
      then self\<lparr>exp_responsibilities := filter (\<lambda>r. r \<noteq> responsibility) (exp_responsibilities self)\<rparr>
      else self)"

definition add_technology :: "Experience \<Rightarrow> string \<Rightarrow> Experience" where
  "add_technology self technology =
     (if strip technology \<noteq> [] \<and> technology \<notin> set (exp_technologies self)
      then self\<lparr>exp_technologies := exp_technologies self @ [strip technology]\<rparr>
      else self)"

definition remove_technology :: "Experience \<Rightarrow> string \<Rightarrow> Experience" where
  "remove_technology self technology =
     (if exp_technologies self \<noteq> [] \<and> technology \<in> set (exp_technologies self)
      then self\<lparr>exp_technologies := filter (\<lambda>t. t \<noteq> technology) (exp_technologies self)\<rparr>
      else self)"

definition is_date_valid :: "Experience \<Rightarrow> bool" where
  "is_date_valid self = (case exp_end_date self of None \<Rightarrow> True | Some e \<Rightarrow> exp_start_date self < e)"

section \<open>Schemas (\<^verbatim>\<open>app/schemas/experience.py\<close>)\<close>

datatype error =
    AuthenticationError
  | ExperienceNotFoundError
  | ProjectNotFoundError
  | ProfileNotFoundError
  | ProfileAlreadyExistsError
  | SlugAlreadyExistsError
  | ValidationError "string list"
  | IntegrityError

text \<open>The parsed request body of \<^verbatim>\<open>ExperienceCreate\<close>, before its validators run.\<close>

record ExperienceCreate =
  ec_company_name :: string
  ec_company_website :: "string option"
  ec_company_size :: "string option"
  ec_industry :: "string option"
  ec_company_location :: "string option"
  ec_position :: string
  ec_employment_type :: "string option"
  ec_start_date :: date
  ec_end_date :: "date option"
  ec_is_current :: bool
  ec_description :: "string option"
  ec_responsibilities :: "string list"
  ec_technologies :: "string list"
  ec_display_order :: int

text \<open>\<^verbatim>\<open>ExperienceUpdate\<close>: a field is unset (\<^term>\<open>None\<close>), set to null
  (\<^term>\<open>Some None\<close>) or set to a value; \<^verbatim>\<open>dict(exclude_unset=True)\<close> keeps the set ones.\<close>

record ExperienceUpdate =
  eu_company_name :: "string option option"
  eu_company_website :: "string option option"
  eu_company_size :: "string option option"
  eu_industry :: "string option option"
  eu_company_location :: "string option option"
  eu_position :: "string option option"
  eu_employment_type :: "string option option"
  eu_start_date :: "date option option"
  eu_end_date :: "date option option"
  eu_is_current :: "bool option option"
  eu_description :: "string option option"
  eu_responsibilities :: "string list option option"
  eu_technologies :: "string list option option"
  eu_display_order :: "int option option"

text \<open>The validators; \<^term>\<open>Inl\<close> carries the message of the \<^verbatim>\<open>ValueError\<close>.\<close>

definition validate_employment_type :: "string option \<Rightarrow> string + string option" where
  "validate_employment_type v =
     (case v of None \<Rightarrow> Inr v
      | Some t \<Rightarrow>
          if t \<notin> set [''FULL_TIME'', ''PART_TIME'', ''CONTRACT'', ''FREELANCE'', ''INTERNSHIP'', ''TEMPORARY'']
          then Inl ''Employment type must be one of the allowed values'' else Inr v)"

definition validate_company_size :: "string option \<Rightarrow> string + string option" where
  "validate_company_size v =
     (case v of None \<Rightarrow> Inr v
      | Some t \<Rightarrow>
          if t \<notin> set [''1-10'', ''11-50'', ''51-200'', ''201-500'', ''501-1000'', ''1001-5000'', ''5000+'']
          then Inl ''Company size must be one of the allowed values'' else Inr v)"

text \<open>\<^verbatim>\<open>validate_end_date(cls, v, values)\<close>; the second argument is
  \<^verbatim>\<open>values.get("start_date")\<close>.\<close>

definition validate_end_date :: "date option \<Rightarrow> date option \<Rightarrow> string + date option" where
  "validate_end_date v values_start_date =
     (case v of None \<Rightarrow> Inr v
      | Some e \<Rightarrow>
          if values_start_date \<noteq> None \<and> e \<le> the values_start_date
          then Inl ''End date must be after start date'' else Inr v)"

text \<open>\<^verbatim>\<open>validate_current_position(cls, v, values)\<close>; the second argument is
  \<^verbatim>\<open>values.get("end_date")\<close>.\<close>

definition validate_current_position :: "bool \<Rightarrow> date option \<Rightarrow> string + bool" where
  "validate_current_position v values_end_date =
     (if v \<and> values_end_date \<noteq> None then Inl ''Current position cannot have an end date''
      else Inr v)"

definition passes :: "string + 'a \<Rightarrow> bool" where
  "passes r = (case r of Inl _ \<Rightarrow> False | Inr _ \<Rightarrow> True)"

definition max_length :: "nat \<Rightarrow> string option \<Rightarrow> bool" where
  "max_length n v = (case v of None \<Rightarrow> True | Some t \<Rightarrow> length t \<le> n)"

definition field_error :: "string \<Rightarrow> bool \<Rightarrow> string list" where
  "field_error name ok = (if ok then [] else [name])"

text \<open>Validation of a create request: the fields in their declared order, each validator
  seeing the fields before it that passed. A request with any failing field is refused
  with every failing field listed.\<close>

definition validate_ExperienceCreate :: "ExperienceCreate \<Rightarrow> error + ExperienceCreate" where
  "validate_ExperienceCreate d =
     (let end_date_result = validate_end_date (ec_end_date d) (Some (ec_start_date d));
          values_end_date = (case end_date_result of Inr e \<Rightarrow> e | Inl _ \<Rightarrow> None);
          errors =
            field_error ''company_name'' (length (ec_company_name d) \<le> 200)
          @ field_error ''company_website'' (max_length 500 (ec_company_website d))
          @ field_error ''company_size'' (max_length 50 (ec_company_size d)
                \<and> passes (validate_company_size (ec_company_size d)))
          @ field_error ''industry'' (max_length 100 (ec_industry d))
          @ field_error ''company_location'' (max_length 100 (ec_company_location d))
          @ field_error ''position'' (length (ec_position d) \<le> 200)
          @ field_error ''employment_type'' (max_length 50 (ec_employment_type d)
                \<and> passes (validate_employment_type (ec_employment_type d)))
          @ field_error ''end_date'' (passes end_date_result)
          @ field_error ''is_current'' (passes (validate_current_position (ec_is_current d) values_end_date))
      in if errors = [] then Inr d else Inl (ValidationError errors))"

text \<open>Validation of an update request: the length bounds and the two enumerations; the
  schema declares no validator on \<^verbatim>\<open>end_date\<close> or \<^verbatim>\<open>is_current\<close>.\<close>

definition set_value :: "'a option option \<Rightarrow> 'a option" where
  "set_value u = (case u of None \<Rightarrow> None | Some v \<Rightarrow> v)"

definition validate_ExperienceUpdate :: "ExperienceUpdate \<Rightarrow> error + ExperienceUpdate" where
  "validate_ExperienceUpdate d =
     (let errors =
            field_error ''company_name'' (max_length 200 (set_value (eu_company_name d)))
          @ field_error ''company_website'' (max_length 500 (set_value (eu_company_website d)))
          @ field_error ''company_size'' (max_length 50 (set_value (eu_company_size d))
                \<and> passes (validate_company_size (set_value (eu_company_size d))))
          @ field_error ''industry'' (max_length 100 (set_value (eu_industry d)))
          @ field_error ''company_location'' (max_length 100 (set_value (eu_company_location d)))
          @ field_error ''position'' (max_length 200 (set_value (eu_position d)))
          @ field_error ''employment_type'' (max_length 50 (set_value (eu_employment_type d))
                \<and> passes (validate_employment_type (set_value (eu_employment_type d))))
      in if errors = [] then Inr d else Inl (ValidationError errors))"

section \<open>The record store\<close>

text \<open>The four tables, each the list of its rows. A query filters the rows; an
  \<^verbatim>\<open>order_by\<close> sorts them by its keys (a descending key is negated), rows that agree on
  every key staying in table order.\<close>

record store =
  users :: "User list"
  profiles :: "Profile list"
  experiences :: "Experience list"
  projects :: "Project list"

text \<open>\<^verbatim>\<open>profile.update_completeness()\<close> followed by the commit: the score of the profile's
  row is recomputed from the experiences the store holds for it.\<close>

definition update_completeness :: "store \<Rightarrow> Profile \<Rightarrow> store" where
  "update_completeness s profile =
     s\<lparr>profiles := map (\<lambda>p. if prof_id p = prof_id profile
          then p\<lparr>prof_completeness_score :=
                 calculate_completeness p (filter (\<lambda>e. exp_profile_id e = prof_id p) (experiences s))\<rparr>
          else p) (profiles s)\<rparr>"

section \<open>Experience service (\<^verbatim>\<open>app/services/experience_service.py\<close>)\<close>

text \<open>An operation returns the error it raises, or the store it leaves with its result.
  The identifier a new row receives is drawn by the database layer and is an input here;
  a row whose identifier is already in the table violates the primary key.\<close>

definition create_experience ::
  "store \<Rightarrow> string \<Rightarrow> string \<Rightarrow> string \<Rightarrow> ExperienceCreate \<Rightarrow> error + (store \<times> Experience)" where
  "create_experience s new_id profile_id user_id experience_data =
     (case first (filter (\<lambda>p. prof_id p = profile_id) (profiles s)) of
        None \<Rightarrow> Inl AuthenticationError
      | Some profile \<Rightarrow>
          if prof_user_id profile \<noteq> user_id then Inl AuthenticationError
          else
            let max_order = first (sort_key (\<lambda>d. - d)
                  (map exp_display_order (filter (\<lambda>e. exp_profile_id e = profile_id) (experiences s))));
                display_order = (case max_order of Some m \<Rightarrow> m + 1 | None \<Rightarrow> 0);
                experience = \<lparr>
                  exp_id = new_id,
                  exp_profile_id = profile_id,
                  exp_company_name = ec_company_name experience_data,
                  exp_company_website = ec_company_website experience_data,
                  exp_company_size = ec_company_size experience_data,
                  exp_industry = ec_industry experience_data,
                  exp_company_location = ec_company_location experience_data,
                  exp_position = ec_position experience_data,
                  exp_employment_type = ec_employment_type experience_data,
                  exp_start_date = ec_start_date experience_data,
                  exp_end_date = ec_end_date experience_data,
                  exp_is_current = ec_is_current experience_data,
                  exp_description = ec_description experience_data,
                  exp_responsibilities = ec_responsibilities experience_data,
                  exp_technologies = ec_technologies experience_data,
                  exp_display_order =
                    (if ec_display_order experience_data \<noteq> 0 then ec_display_order experience_data
                     else display_order)\<rparr>
            in if new_id \<in> set (map exp_id (experiences s)) then Inl IntegrityError
               else Inr (update_completeness (s\<lparr>experiences := experiences s @ [experience]\<rparr>) profile,
                         experience))"

definition get_experience_by_id :: "store \<Rightarrow> string \<Rightarrow> Experience option" where
  "get_experience_by_id s experience_id =
     first (filter (\<lambda>e. exp_id e = experience_id) (experiences s))"

definition get_experiences_by_profile ::
  "store \<Rightarrow> string \<Rightarrow> string option \<Rightarrow> error + Experience list" where
  "get_experiences_by_profile s profile_id user_id =
     (case first (filter (\<lambda>p. prof_id p = profile_id) (profiles s)) of
        None \<Rightarrow> Inr []
      | Some profile \<Rightarrow>
          if \<not> can_view profile user_id then Inl AuthenticationError
          else Inr (sort_key (\<lambda>e. (- exp_display_order e, - exp_start_date e))
                      (filter (\<lambda>e. exp_profile_id e = profile_id) (experiences s))))"

text \<open>\<^verbatim>\<open>setattr\<close> of one field of the update: an unset field keeps the old value. A null
  written to a column declared \<^verbatim>\<open>nullable=False\<close> makes the commit fail (for the JSONB
  column \<^verbatim>\<open>responsibilities\<close> the mapper may store a JSON null instead; no property below
  sets a field to null).\<close>

definition set_nullable :: "'a option option \<Rightarrow> 'a option \<Rightarrow> 'a option" where
  "set_nullable u old = (case u of None \<Rightarrow> old | Some v \<Rightarrow> v)"

definition set_required :: "'a option option \<Rightarrow> 'a \<Rightarrow> 'a" where
  "set_required u old = (case u of Some (Some v) \<Rightarrow> v | _ \<Rightarrow> old)"

definition sets_null :: "'a option option \<Rightarrow> bool" where
  "sets_null u = (u = Some None)"

definition update_experience ::
  "store \<Rightarrow> string \<Rightarrow> string \<Rightarrow> ExperienceUpdate \<Rightarrow> error + (store \<times> Experience)" where
  "update_experience s experience_id user_id experience_data =
     (case first (filter (\<lambda>e. exp_id e = experience_id) (experiences s)) of
        None \<Rightarrow> Inl ExperienceNotFoundError
      | Some experience \<Rightarrow>
          (case first (filter (\<lambda>p. prof_id p = exp_profile_id experience) (profiles s)) of
             None \<Rightarrow> Inl AuthenticationError
           | Some profile \<Rightarrow>
               if prof_user_id profile \<noteq> user_id then Inl AuthenticationError
               else if sets_null (eu_company_name experience_data)
                     \<or> sets_null (eu_position experience_data)
                     \<or> sets_null (eu_start_date experience_data)
                     \<or> sets_null (eu_is_current experience_data)
                     \<or> sets_null (eu_responsibilities experience_data)
                     \<or> sets_null (eu_technologies experience_data)
                     \<or> sets_null (eu_display_order experience_data)
               then Inl IntegrityError
               else
                 let updated = experience\<lparr>
                       exp_company_name := set_required (eu_company_name experience_data) (exp_company_name experience),
                       exp_company_website := set_nullable (eu_company_website experience_data) (exp_company_website experience),
                       exp_company_size := set_nullable (eu_company_size experience_data) (exp_company_size experience),
                       exp_industry := set_nullable (eu_industry experience_data) (exp_industry experience),
                       exp_company_location := set_nullable (eu_company_location experience_data) (exp_company_location experience),
                       exp_position := set_required (eu_position experience_data) (exp_position experience),
                       exp_employment_type := set_nullable (eu_employment_type experience_data) (exp_employment_type experience),
                       exp_start_date := set_required (eu_start_date experience_data) (exp_start_date experience),
                       exp_end_date := set_nullable (eu_end_date experience_data) (exp_end_date experience),
                       exp_is_current := set_required (eu_is_current experience_data) (exp_is_current experience),
                       exp_description := set_nullable (eu_description experience_data) (exp_description experience),
                       exp_responsibilities := set_required (eu_responsibilities experience_data) (exp_responsibilities experience),
                       exp_technologies := set_required (eu_technologies experience_data) (exp_technologies experience),
                       exp_display_order := set_required (eu_display_order experience_data) (exp_display_order experience)\<rparr>;
                     s1 = s\<lparr>experiences := map (\<lambda>e. if exp_id e = experience_id then updated else e) (experiences s)\<rparr>
                 in Inr (update_completeness s1 profile, updated)))"

text \<open>The loop of \<^verbatim>\<open>reorder_experiences\<close>. \<^verbatim>\<open>experience_map\<close> holds the profile's
  experiences by identifier; assigning to the object found there changes its row.\<close>

definition assign_display_order :: "string \<Rightarrow> string \<Rightarrow> int \<Rightarrow> Experience list \<Rightarrow> Experience list" where
  "assign_display_order profile_id experience_id v rows =
     map (\<lambda>e. if exp_id e = experience_id \<and> exp_profile_id e = profile_id
               then e\<lparr>exp_display_order := v\<rparr> else e) rows"

fun reorder_loop :: "string \<Rightarrow> (string \<rightharpoonup> Experience) \<Rightarrow> int \<Rightarrow> (nat \<times> string) list
    \<Rightarrow> Experience list \<Rightarrow> Experience list" where
  "reorder_loop profile_id experience_map n [] rows = rows"
| "reorder_loop profile_id experience_map n ((index, experience_id) # rest) rows =
     reorder_loop profile_id experience_map n rest
       (if experience_id \<in> dom experience_map
        then assign_display_order profile_id experience_id (n - int index) rows
        else rows)"

definition reorder_experiences ::
  "store \<Rightarrow> string \<Rightarrow> string \<Rightarrow> string list \<Rightarrow> error + (store \<times> Experience list)" where
  "reorder_experiences s profile_id user_id experience_ids =
     (case first (filter (\<lambda>p. prof_id p = profile_id) (profiles s)) of
        None \<Rightarrow> Inl AuthenticationError
      | Some profile \<Rightarrow>
          if prof_user_id profile \<noteq> user_id then Inl AuthenticationError
          else
            let experiences_of_profile = filter (\<lambda>e. exp_profile_id e = profile_id) (experiences s);
                experience_map = map_of (rev (map (\<lambda>e. (exp_id e, e)) experiences_of_profile));
                s1 = s\<lparr>experiences := reorder_loop profile_id experience_map
                        (int (length experience_ids)) (enumerate 0 experience_ids) (experiences s)\<rparr>
            in Inr (s1, sort_key (\<lambda>e. - exp_display_order e)
                          (filter (\<lambda>e. exp_profile_id e = profile_id) (experiences s1))))"

subsection \<open>The endpoints (\<^verbatim>\<open>app/api/v1/experiences.py\<close>)\<close>

text \<open>The request body is validated against its schema before the handler runs.\<close>

definition api_create_experience ::
  "store \<Rightarrow> string \<Rightarrow> string \<Rightarrow> string \<Rightarrow> ExperienceCreate \<Rightarrow> error + (store \<times> Experience)" where
  "api_create_experience s new_id profile_id current_user_id body =
     (case validate_ExperienceCreate body of
        Inl e \<Rightarrow> Inl e
      | Inr experience_data \<Rightarrow> create_experience s new_id profile_id current_user_id experience_data)"

definition api_update_experience ::
  "store \<Rightarrow> string \<Rightarrow> string \<Rightarrow> ExperienceUpdate \<Rightarrow> error + (store \<times> Experience)" where
  "api_update_experience s experience_id current_user_id body =
     (case validate_ExperienceUpdate body of
        Inl e \<Rightarrow> Inl e
      | Inr experience_data \<Rightarrow> update_experience s experience_id current_user_id experience_data)"

section \<open>Project service (\<^verbatim>\<open>app/services/project_service.py\<close>)\<close>

definition get_project_by_id :: "Project list \<Rightarrow> string \<Rightarrow> Project option" where
  "get_project_by_id rows project_id = first (filter (\<lambda>p. proj_id p = project_id) rows)"

definition get_profile_projects :: "store \<Rightarrow> string \<Rightarrow> Project list" where
  "get_profile_projects s profile_id =
     sort_key (\<lambda>p. (proj_display_order p, - proj_created_at p))
       (filter (\<lambda>p. proj_profile_id p = profile_id) (projects s))"

fun reorder_projects_loop :: "string \<Rightarrow> (nat \<times> string) list \<Rightarrow> Project list \<Rightarrow> Project list" where
  "reorder_projects_loop profile_id [] rows = rows"
| "reorder_projects_loop profile_id ((index, project_id) # rest) rows =
     reorder_projects_loop profile_id rest
       (case get_project_by_id rows project_id of
          None \<Rightarrow> rows
        | Some project \<Rightarrow>
            if proj_profile_id project = profile_id
            then map (\<lambda>p. if proj_id p = project_id then p\<lparr>proj_display_order := int index\<rparr> else p) rows
            else rows)"

definition reorder_projects ::
  "store \<Rightarrow> string \<Rightarrow> string \<Rightarrow> string list \<Rightarrow> error + (store \<times> Project list)" where
  "reorder_projects s profile_id user_id project_ids =
     (case first (filter (\<lambda>p. prof_id p = profile_id) (profiles s)) of
        None \<Rightarrow> Inl ProjectNotFoundError
      | Some profile \<Rightarrow>
          if prof_user_id profile \<noteq> user_id then Inl ProjectNotFoundError
          else
            let s1 = s\<lparr>projects := reorder_projects_loop profile_id (enumerate 0 project_ids) (projects s)\<rparr>
            in Inr (s1, get_profile_projects s1 profile_id))"

section \<open>Profile service (\<^verbatim>\<open>app/services/profile_service.py\<close>)\<close>

record ProfileCreate =
  pc_headline :: "string option"
  pc_summary :: "string option"
  pc_location :: "string option"
  pc_visibility :: string
  pc_contact :: json
  pc_profile_photo_url :: "string option"
  pc_slug :: "string option"
  pc_draft_data :: "json option"

definition slug_taken :: "Profile list \<Rightarrow> string \<Rightarrow> bool" where
  "slug_taken rows slug = (first (filter (\<lambda>p. prof_slug p = Some slug) rows) \<noteq> None)"

text \<open>The loop that makes the slug unique: \<^verbatim>\<open>slug\<close> and \<^verbatim>\<open>counter\<close> are its variables.\<close>

function unique_slug :: "Profile list \<Rightarrow> string \<Rightarrow> string \<Rightarrow> nat \<Rightarrow> string" where
  "unique_slug rows original_slug slug counter =
     (if slug_taken rows slug
      then unique_slug rows original_slug (original_slug @ ''-'' @ str_nat counter) (counter + 1)
      else slug)"
  by pat_completeness auto

text \<open>\<^verbatim>\<open>create_profile\<close>. The new object is built by
  \<^verbatim>\<open>Profile(user_id=..., headline=..., ...)\<close> and \<^verbatim>\<open>generate_slug\<close> is called on it before it
  is added to the session. Neither its relationship \<^verbatim>\<open>user\<close> nor its column \<^verbatim>\<open>id\<close> has been
  assigned then (the identifier's default is drawn when the row is inserted), and an
  unassigned attribute reads as \<^verbatim>\<open>None\<close>: these are \<open>self_user\<close> and \<open>self_id\<close> below.
  The random bytes and the identifier the row receives at the insert are inputs. A
  constraint violation at the commit is reported as \<^verbatim>\<open>ProfileAlreadyExistsError\<close>.\<close>

definition create_profile ::
  "store \<Rightarrow> byte \<times> byte \<times> byte \<Rightarrow> string \<Rightarrow> string \<Rightarrow> ProfileCreate
     \<Rightarrow> error + (store \<times> Profile)" where
  "create_profile s entropy new_id user_id profile_data =
     (case first (filter (\<lambda>u. usr_id u = user_id) (users s)) of
        None \<Rightarrow> Inl AuthenticationError
      | Some user \<Rightarrow>
          if first (filter (\<lambda>p. prof_user_id p = user_id) (profiles s)) \<noteq> None
          then Inl ProfileAlreadyExistsError
          else if truthy (pc_slug profile_data)
                  \<and> first (filter (\<lambda>p. prof_slug p = pc_slug profile_data) (profiles s)) \<noteq> None
          then Inl SlugAlreadyExistsError
          else
            let self_user = (None :: User option);
                self_id = (None :: string option);
                slug = (if \<not> truthy (pc_slug profile_data)
                        then generate_slug self_user self_id entropy
                        else the (pc_slug profile_data));
                original_slug = slug;
                slug = unique_slug (profiles s) original_slug slug 1;
                profile = \<lparr>
                  prof_id = new_id,
                  prof_user_id = user_id,
                  prof_slug = Some slug,
                  prof_headline = pc_headline profile_data,
                  prof_summary = pc_summary profile_data,
                  prof_location = pc_location profile_data,
                  prof_visibility = pc_visibility profile_data,
                  prof_contact = pc_contact profile_data,
                  prof_draft_data = pc_draft_data profile_data,
                  prof_profile_photo_url = pc_profile_photo_url profile_data,
                  prof_completeness_score = 0\<rparr>;
                stored = profile\<lparr>prof_completeness_score :=
                  calculate_completeness profile (filter (\<lambda>e. exp_profile_id e = new_id) (experiences s))\<rparr>
            in if new_id \<in> set (map prof_id (profiles s)) then Inl ProfileAlreadyExistsError
               else Inr (s\<lparr>profiles := profiles s @ [stored]\<rparr>, stored))"

section \<open>Notions used to state the properties\<close>

text \<open>The completeness score as the specification words it: the headline counts when it
  is present and not empty, the summary when it has more than 100 characters.\<close>

definition spec_completeness :: "Profile \<Rightarrow> Experience list \<Rightarrow> int" where
  "spec_completeness p es =
     min 100 ((if prof_headline p \<noteq> None \<and> the (prof_headline p) \<noteq> [] then 10 else 0)
            + (if prof_summary p \<noteq> None \<and> 100 < length (the (prof_summary p)) then 20 else 0)
            + min 30 (10 * int (length es)))"

text \<open>A slug ends with a random suffix when its last seven characters are a hyphen and six
  hexadecimal digits.\<close>

definition hex_suffixed :: "string \<Rightarrow> bool" where
  "hex_suffixed slug =
     (7 \<le> length slug
      \<and> (let tail = drop (length slug - 7) slug
         in hd tail = CHR ''-'' \<and> list_all (\<lambda>c. c \<in> set ''0123456789abcdef'') (tl tail)))"

text \<open>The position of the last occurrence of an element of a list.\<close>

fun last_pos :: "'a list \<Rightarrow> 'a \<Rightarrow> nat" where
  "last_pos [] x = 0"
| "last_pos (y # ys) x = (if x \<in> set ys then Suc (last_pos ys x) else 0)"

text \<open>What the loop of \<^verbatim>\<open>reorder_experiences\<close> does to one row.\<close>

fun reorder_row :: "string \<Rightarrow> (string \<rightharpoonup> Experience) \<Rightarrow> int \<Rightarrow> (nat \<times> string) list
    \<Rightarrow> Experience \<Rightarrow> Experience" where
  "reorder_row profile_id experience_map n [] e = e"
| "reorder_row profile_id experience_map n ((index, experience_id) # rest) e =
     reorder_row profile_id experience_map n rest
       (if experience_id \<in> dom experience_map \<and> exp_id e = experience_id
           \<and> exp_profile_id e = profile_id
        then e\<lparr>exp_display_order := n - int index\<rparr> else e)"

text \<open>What the loop of \<^verbatim>\<open>reorder_projects\<close> does to one row of a table whose
  identifiers are unique.\<close>

fun reorder_project_row :: "string \<Rightarrow> (nat \<times> string) list \<Rightarrow> Project \<Rightarrow> Project" where
  "reorder_project_row profile_id [] p = p"
| "reorder_project_row profile_id ((index, project_id) # rest) p =
     reorder_project_row profile_id rest
       (if proj_id p = project_id \<and> proj_profile_id p = profile_id
        then p\<lparr>proj_display_order := int index\<rparr> else p)"

section \<open>Sample rows\<close>

definition sample_profile :: "string \<Rightarrow> string \<Rightarrow> string \<Rightarrow> Profile" where
  "sample_profile pid owner visibility = \<lparr>
     prof_id = pid, prof_user_id = owner, prof_slug = None, prof_headline = None,
     prof_summary = None, prof_location = None, prof_visibility = visibility,
     prof_contact = JDict [], prof_draft_data = None, prof_profile_photo_url = None,
     prof_completeness_score = 0\<rparr>"

definition sample_experience :: "string \<Rightarrow> string \<Rightarrow> int \<Rightarrow> Experience" where
  "sample_experience eid pid order = \<lparr>
     exp_id = eid, exp_profile_id = pid, exp_company_name = ''Acme'',
     exp_company_website = None, exp_company_size = None, exp_industry = None,
     exp_company_location = None, exp_position = ''Engineer'', exp_employment_type = None,
     exp_start_date = 737000, exp_end_date = None, exp_is_current = False,
     exp_description = None, exp_responsibilities = [], exp_technologies = [],
     exp_display_order = order\<rparr>"

definition sample_project :: "string \<Rightarrow> string \<Rightarrow> int \<Rightarrow> Project" where
  "sample_project qid pid order = \<lparr>
     proj_id = qid, proj_profile_id = pid, proj_name = ''Site'', proj_description = None,
     proj_status = ACTIVE, proj_category = PRODUCTION, proj_scale = MEDIUM,
     proj_start_date = None, proj_end_date = None, proj_client = None,
     proj_technologies = [], proj_achievements = [], proj_challenges = [],
     proj_display_order = order, proj_created_at = 1700000000\<rparr>"

definition sample_create :: "int \<Rightarrow> ExperienceCreate" where
  "sample_create order = \<lparr>
     ec_company_name = ''Acme'', ec_company_website = None, ec_company_size = None,
     ec_industry = None, ec_company_location = None, ec_position = ''Engineer'',
     ec_employment_type = None, ec_start_date = 737000, ec_end_date = None,
     ec_is_current = False, ec_description = None, ec_responsibilities = [],
     ec_technologies = [], ec_display_order = order\<rparr>"

definition empty_update :: ExperienceUpdate where
  "empty_update = \<lparr>
     eu_company_name = None, eu_company_website = None, eu_company_size = None,
     eu_industry = None, eu_company_location = None, eu_position = None,
     eu_employment_type = None, eu_start_date = None, eu_end_date = None,
     eu_is_current = None, eu_description = None, eu_responsibilities = None,
     eu_technologies = None, eu_display_order = None\<rparr>"

definition sample_profile_create :: "string option \<Rightarrow> ProfileCreate" where
  "sample_profile_create slug = \<lparr>
     pc_headline = None, pc_summary = None, pc_location = None, pc_visibility = ''PRIVATE'',
     pc_contact = JDict [], pc_profile_photo_url = None, pc_slug = slug, pc_draft_data = None\<rparr>"

definition sample_store :: "Profile list \<Rightarrow> Experience list \<Rightarrow> Project list \<Rightarrow> store" where
  "sample_store ps es qs = \<lparr>users = [], profiles = ps, experiences = es, projects = qs\<rparr>"

text \<open>A store with three experiences and three projects of one profile, in no particular
  order, beside rows of another profile.\<close>

definition ordering_store :: store where
  "ordering_store = sample_store
     [sample_profile ''P1'' ''U1'' ''PRIVATE'', sample_profile ''P2'' ''U2'' ''PUBLIC'']
     [sample_experience ''B'' ''P1'' 5, sample_experience ''X'' ''P2'' 9,
      sample_experience ''A'' ''P1'' 5, sample_experience ''C'' ''P1'' 0]
     [sample_project ''A'' ''P1'' 2, sample_project ''C'' ''P1'' 1,
      sample_project ''Y'' ''P2'' 0, sample_project ''B'' ''P1'' 0]"

section \<open>Queries, and the termination of the slug loop\<close>

lemma first_filter_None: "first (filter P xs) = None \<longleftrightarrow> (\<forall>x \<in> set xs. \<not> P x)"
  by (induction xs) (auto simp: first_def)

lemma first_filter_Some: "first (filter P xs) = Some x \<Longrightarrow> x \<in> set xs \<and> P x"
  by (induction xs) (auto simp: first_def split: if_splits)

lemma digit_char_inj: "a < 10 \<Longrightarrow> b < 10 \<Longrightarrow> digit_char a = digit_char b \<Longrightarrow> a = b"
proof -
  assume a: "a < 10" and b: "b < 10" and e: "digit_char a = digit_char b"
  have d: "distinct ''0123456789''" by simp
  have l: "length ''0123456789'' = 10" by simp
  from e have "''0123456789'' ! a = ''0123456789'' ! b" by (simp only: digit_char_def)
  with d a b l show "a = b" by (simp only: nth_eq_iff_index_eq)
qed

lemma str_nat_small: "n < 10 \<Longrightarrow> str_nat n = [digit_char n]"
  by (subst str_nat.simps) simp

lemma str_nat_large: "\<not> n < 10 \<Longrightarrow> str_nat n = str_nat (n div 10) @ [digit_char (n mod 10)]"
  by (subst str_nat.simps) simp

lemma str_nat_nonempty: "str_nat n \<noteq> []"
  by (cases "n < 10") (simp_all add: str_nat_small str_nat_large)

lemma str_nat_inj: "str_nat n = str_nat m \<Longrightarrow> n = m"
proof (induction n arbitrary: m rule: str_nat.induct)
  case (1 n)
  show ?case
  proof (cases "n < 10")
    case n: True
    show ?thesis
    proof (cases "m < 10")
      case True
      with n 1(2) show ?thesis by (simp add: str_nat_small digit_char_inj)
    next
      case False
      with n 1(2) show ?thesis using str_nat_nonempty [of "m div 10"]
        by (simp add: str_nat_small str_nat_large)
    qed
  next
    case n: False
    show ?thesis
    proof (cases "m < 10")
      case True
      with n 1(2) show ?thesis using str_nat_nonempty [of "n div 10"]
        by (simp add: str_nat_small str_nat_large)
    next
      case False
      with n 1(2) have q: "str_nat (n div 10) = str_nat (m div 10)"
        and r: "digit_char (n mod 10) = digit_char (m mod 10)"
        by (simp_all add: str_nat_large)
      from 1(1) [OF n q] have "n div 10 = m div 10" .
      moreover from r have "n mod 10 = m mod 10" by (simp add: digit_char_inj)
      ultimately show ?thesis by (metis div_mult_mod_eq)
    qed
  qed
qed

lemma slug_taken_iff: "slug_taken rows slug \<longleftrightarrow> (\<exists>p \<in> set rows. prof_slug p = Some slug)"
  by (auto simp: slug_taken_def first_filter_None)

lemma finite_taken_counters:
  "finite {k. c \<le> k \<and> slug_taken rows (original @ ''-'' @ str_nat k)}"
proof -
  let ?cand = "\<lambda>k. Some (original @ ''-'' @ str_nat k)"
  have "inj ?cand" by (auto simp: inj_on_def dest: str_nat_inj)
  then have "finite (?cand -` (prof_slug ` set rows))" by (simp add: finite_vimageI)
  moreover have "{k. c \<le> k \<and> slug_taken rows (original @ ''-'' @ str_nat k)}
      \<subseteq> ?cand -` (prof_slug ` set rows)"
    by (auto simp: slug_taken_iff) (metis imageI)
  ultimately show ?thesis by (rule rev_finite_subset)
qed

lemma card_taken_counters:
  "card {k. c \<le> k \<and> slug_taken rows (original @ ''-'' @ str_nat k)}
   = card {k. Suc c \<le> k \<and> slug_taken rows (original @ ''-'' @ str_nat k)}
     + (if slug_taken rows (original @ ''-'' @ str_nat c) then 1 else 0)"
proof (cases "slug_taken rows (original @ ''-'' @ str_nat c)")
  case True
  then have "{k. c \<le> k \<and> slug_taken rows (original @ ''-'' @ str_nat k)}
      = insert c {k. Suc c \<le> k \<and> slug_taken rows (original @ ''-'' @ str_nat k)}"
    by (auto simp: Suc_le_eq le_less)
  with True show ?thesis using finite_taken_counters [of "Suc c" rows original] by simp
next
  case False
  then have "{k. c \<le> k \<and> slug_taken rows (original @ ''-'' @ str_nat k)}
      = {k. Suc c \<le> k \<and> slug_taken rows (original @ ''-'' @ str_nat k)}"
    by (auto simp: Suc_le_eq le_less)
  with False show ?thesis by simp
qed

termination unique_slug
proof (relation "measure (\<lambda>(rows, original, slug, counter).
        card {k. counter \<le> k \<and> slug_taken rows (original @ ''-'' @ str_nat k)}
        + (if slug_taken rows slug then 1 else 0))", goal_cases)
  case 1
  show ?case by simp
next
  case (2 rows original slug counter)
  then show ?case using card_taken_counters [of counter rows original] by simp
qed

declare unique_slug.simps [simp del]

lemma unique_slug_result:
  "unique_slug rows original slug counter = slug
   \<or> (\<exists>k \<ge> counter. unique_slug rows original slug counter = original @ ''-'' @ str_nat k)"
proof (induction rows original slug counter rule: unique_slug.induct)
  case (1 rows original slug counter)
  show ?case
  proof (cases "slug_taken rows slug")
    case True
    with 1 [OF True] show ?thesis
      by (subst (1 2) unique_slug.simps) (auto intro: Suc_leD)
  next
    case False
    then show ?thesis by (subst unique_slug.simps) simp
  qed
qed

lemma unique_slug_free: "\<not> slug_taken rows slug \<Longrightarrow> unique_slug rows original slug counter = slug"
  by (subst unique_slug.simps) simp

lemma unique_slug_not_taken: "\<not> slug_taken rows (unique_slug rows original slug counter)"
proof (induction rows original slug counter rule: unique_slug.induct)
  case (1 rows original slug counter)
  then show ?case by (subst unique_slug.simps) simp
qed

section \<open>Visibility\<close>

text \<open>
  C1. A public profile can be viewed by every viewer, the absent one included. A private
  or friends-only profile can be viewed exactly when the viewer is its owner, so a
  private profile is denied to every other viewer and to the absent viewer.
\<close>

theorem can_view_policy:
  "(prof_visibility p = ''PUBLIC'' \<longrightarrow> can_view p viewer)
   \<and> (prof_visibility p = ''PRIVATE'' \<or> prof_visibility p = ''FRIENDS''
        \<longrightarrow> can_view p viewer = (viewer = Some (prof_user_id p)))
   \<and> (prof_visibility p = ''PRIVATE'' \<and> viewer \<noteq> Some (prof_user_id p) \<longrightarrow> \<not> can_view p viewer)
   \<and> (prof_visibility p = ''PRIVATE'' \<longrightarrow> \<not> can_view p None)"
  by (auto simp: can_view_def)

theorem can_view_policy_witness:
  "can_view (sample_profile ''P1'' ''U1'' ''PUBLIC'') None
   \<and> \<not> can_view (sample_profile ''P1'' ''U1'' ''PRIVATE'') None
   \<and> \<not> can_view (sample_profile ''P1'' ''U1'' ''PRIVATE'') (Some ''U2'')
   \<and> can_view (sample_profile ''P1'' ''U1'' ''PRIVATE'') (Some ''U1'')
   \<and> can_view (sample_profile ''P1'' ''U1'' ''FRIENDS'') (Some ''U1'')
   \<and> \<not> can_view (sample_profile ''P1'' ''U1'' ''FRIENDS'') None"
  using can_view_policy [of "sample_profile ''P1'' ''U1'' ''PUBLIC''" None]
    can_view_policy [of "sample_profile ''P1'' ''U1'' ''PRIVATE''" None]
    can_view_policy [of "sample_profile ''P1'' ''U1'' ''PRIVATE''" "Some ''U2''"]
    can_view_policy [of "sample_profile ''P1'' ''U1'' ''PRIVATE''" "Some ''U1''"]
    can_view_policy [of "sample_profile ''P1'' ''U1'' ''FRIENDS''" "Some ''U1''"]
    can_view_policy [of "sample_profile ''P1'' ''U1'' ''FRIENDS''" None]
  by (simp add: sample_profile_def)

section \<open>Completeness score\<close>

lemma calculate_completeness_eq:
  "calculate_completeness p es =
     min 100 ((if (\<exists>h. prof_headline p = Some h \<and> strip h \<noteq> []) then 10 else 0)
            + (if (\<exists>t. prof_summary p = Some t \<and> 100 < length (strip t)) then 20 else 0)
            + min 30 (10 * int (length es)))"
  by (cases "prof_headline p"; cases "prof_summary p"; cases es)
     (auto simp: calculate_completeness_def truthy_def Let_def strip_def)

lemma calculate_completeness_range:
  "0 \<le> calculate_completeness p es \<and> calculate_completeness p es \<le> 60"
  by (auto simp: calculate_completeness_eq min_def)

text \<open>
  C3, as the code computes it. The score is a function of the profile and its
  experiences: 10 for a headline that is present and not blank (not empty once the
  surrounding whitespace is stripped), 20 for a summary whose stripped text is longer than
  100 characters, 10 per experience up to 30, the sum capped at 100. A profile with only a
  headline that is not blank scores 10; one with such a headline, a summary of 150
  characters after stripping and four experiences scores 60; an empty profile scores 0.
\<close>

theorem calculate_completeness_stripped:
  "calculate_completeness p es =
     min 100 ((if (\<exists>h. prof_headline p = Some h \<and> strip h \<noteq> []) then 10 else 0)
            + (if (\<exists>t. prof_summary p = Some t \<and> 100 < length (strip t)) then 20 else 0)
            + min 30 (10 * int (length es)))
   \<and> (prof_headline p = Some h \<and> strip h \<noteq> [] \<and> prof_summary p = None
        \<longrightarrow> calculate_completeness p [] = 10)
   \<and> (prof_headline p = Some h \<and> strip h \<noteq> [] \<and> prof_summary p = Some t
        \<and> length (strip t) = 150 \<and> length es = 4 \<longrightarrow> calculate_completeness p es = 60)
   \<and> (prof_headline p = None \<and> prof_summary p = None \<longrightarrow> calculate_completeness p [] = 0)"
  by (simp add: calculate_completeness_eq)

lemma strip_X: "strip ''X'' = ''X''"
  by (simp add: strip_def isspace_def)

lemma strip_replicate_a: "strip (replicate 150 (CHR ''a'')) = replicate 150 (CHR ''a'')"
  by (simp add: strip_def isspace_def)

theorem calculate_completeness_stripped_witness:
  "calculate_completeness (sample_profile ''P1'' ''U1'' ''PRIVATE''\<lparr>prof_headline := Some ''X''\<rparr>) [] = 10
   \<and> calculate_completeness (sample_profile ''P1'' ''U1'' ''PRIVATE''
        \<lparr>prof_headline := Some ''X'', prof_summary := Some (replicate 150 (CHR ''a''))\<rparr>)
        (map (\<lambda>i. sample_experience i ''P1'' 0) [''E1'', ''E2'', ''E3'', ''E4'']) = 60
   \<and> calculate_completeness (sample_profile ''P1'' ''U1'' ''PRIVATE'') [] = 0"
  using calculate_completeness_stripped [of "sample_profile ''P1'' ''U1'' ''PRIVATE''\<lparr>prof_headline := Some ''X''\<rparr>" "[]" "''X''" "[]"]
    calculate_completeness_stripped [of "sample_profile ''P1'' ''U1'' ''PRIVATE''
        \<lparr>prof_headline := Some ''X'', prof_summary := Some (replicate 150 (CHR ''a''))\<rparr>"
        "map (\<lambda>i. sample_experience i ''P1'' 0) [''E1'', ''E2'', ''E3'', ''E4'']" "''X''" "replicate 150 (CHR ''a'')"]
    calculate_completeness_stripped [of "sample_profile ''P1'' ''U1'' ''PRIVATE''" "[]" "[]" "[]"]
  by (simp add: sample_profile_def strip_X strip_replicate_a)

text \<open>
  The score differs from the specification's wording on a headline that is present, not
  empty and blank: the headline of one space earns nothing.
\<close>

theorem completeness_blank_headline_counterexample:
  "calculate_completeness (sample_profile ''P1'' ''U1'' ''PRIVATE''\<lparr>prof_headline := Some '' ''\<rparr>) []
   \<noteq> spec_completeness (sample_profile ''P1'' ''U1'' ''PRIVATE''\<lparr>prof_headline := Some '' ''\<rparr>) []"
  by (simp add: calculate_completeness_def spec_completeness_def sample_profile_def truthy_def
      strip_def isspace_def)

section \<open>Technology and responsibility lists\<close>

lemma add_technology_noop:
  "strip t = [] \<or> t \<in> set (exp_technologies e) \<Longrightarrow> add_technology e t = e"
  by (auto simp: add_technology_def)

lemma add_responsibility_noop:
  "strip r = [] \<or> r \<in> set (exp_responsibilities e) \<Longrightarrow> add_responsibility e r = e"
  by (auto simp: add_responsibility_def)

lemma remove_technology_absent:
  "t \<notin> set (exp_technologies e) \<Longrightarrow> remove_technology e t = e"
  by (auto simp: remove_technology_def)

text \<open>Adding twice a value that carries no surrounding whitespace adds it once.\<close>

lemma add_technology_twice_trimmed:
  "strip t = t \<Longrightarrow> add_technology (add_technology e t) t = add_technology e t"
  by (auto simp: add_technology_def)

lemma add_technology_once_trimmed:
  "strip t = t \<Longrightarrow> t \<noteq> [] \<Longrightarrow> distinct (exp_technologies e) \<Longrightarrow>
   count_list (exp_technologies (add_technology (add_technology e t) t)) t = 1"
  by (auto simp: add_technology_def count_list_0_iff distinct_count_atmost_1 count_mset)

text \<open>
  C4 at a value with surrounding whitespace. The membership test reads the value as it
  was passed and the list receives the stripped value, so the second call finds nothing
  and appends again: two calls with the same padded string leave two entries.
\<close>

theorem add_technology_twice_padded:
  "exp_technologies
     (add_technology (add_technology (e\<lparr>exp_technologies := []\<rparr>) '' Python '') '' Python '')
   = [''Python'', ''Python'']"
  by (simp add: add_technology_def strip_def isspace_def)

section \<open>Listing the experiences of a profile\<close>

text \<open>
  C10. When no profile is stored under the identifier, listing its experiences returns
  the empty list and no error, whoever asks.
\<close>

theorem list_experiences_missing_profile:
  "first (filter (\<lambda>p. prof_id p = pid) (profiles s)) = None
   \<Longrightarrow> get_experiences_by_profile s pid viewer = Inr []"
  by (simp add: get_experiences_by_profile_def)

theorem list_experiences_missing_profile_witness:
  "get_experiences_by_profile
     (sample_store [sample_profile ''P1'' ''U1'' ''PRIVATE''] [sample_experience ''E1'' ''P1'' 0] [])
     ''P2'' None = Inr []"
  using list_experiences_missing_profile
    [of "''P2''" "sample_store [sample_profile ''P1'' ''U1'' ''PRIVATE''] [sample_experience ''E1'' ''P1'' 0] []" None]
  by (simp add: sample_store_def sample_profile_def first_def)

lemma sorted_listing:
  "sorted_wrt (\<lambda>a b. exp_display_order b < exp_display_order a
        \<or> (exp_display_order a = exp_display_order b \<and> exp_start_date b \<le> exp_start_date a))
     (sort_key (\<lambda>e. (- exp_display_order e, - exp_start_date e)) rows)"
proof -
  have "sorted (map (\<lambda>e. (- exp_display_order e, - exp_start_date e))
          (sort_key (\<lambda>e. (- exp_display_order e, - exp_start_date e)) rows))"
    by (rule sorted_sort_key)
  then have "sorted_wrt (\<lambda>a b. (- exp_display_order a, - exp_start_date a)
        \<le> (- exp_display_order b, - exp_start_date b))
      (sort_key (\<lambda>e. (- exp_display_order e, - exp_start_date e)) rows)"
    by (simp add: sorted_map)
  then show ?thesis
    by (rule sorted_wrt_mono_rel [rotated]) auto
qed

text \<open>
  C9. For a stored profile, a viewer without view access (the absent viewer included)
  gets an authorization error, not an empty list; a viewer with access gets all the
  experiences of the profile, by display order descending, ties by start date descending.
\<close>

theorem list_experiences_checks_view:
  assumes "first (filter (\<lambda>p. prof_id p = pid) (profiles s)) = Some profile"
  shows "(\<not> can_view profile viewer
            \<longrightarrow> get_experiences_by_profile s pid viewer = Inl AuthenticationError)
       \<and> (can_view profile viewer
            \<longrightarrow> (\<exists>rows. get_experiences_by_profile s pid viewer = Inr rows
                  \<and> mset rows = mset (filter (\<lambda>e. exp_profile_id e = pid) (experiences s))
                  \<and> sorted_wrt (\<lambda>a b. exp_display_order b < exp_display_order a
                        \<or> (exp_display_order a = exp_display_order b
                            \<and> exp_start_date b \<le> exp_start_date a)) rows))"
  using assms by (simp add: get_experiences_by_profile_def sorted_listing)

theorem list_experiences_checks_view_witness:
  "get_experiences_by_profile
     (sample_store [sample_profile ''P1'' ''U1'' ''PRIVATE'']
        [sample_experience ''E1'' ''P1'' 1, sample_experience ''E2'' ''P1'' 2] [])
     ''P1'' None = Inl AuthenticationError
   \<and> (\<exists>rows. get_experiences_by_profile
     (sample_store [sample_profile ''P1'' ''U1'' ''PRIVATE'']
        [sample_experience ''E1'' ''P1'' 1, sample_experience ''E2'' ''P1'' 2] [])
     ''P1'' (Some ''U1'') = Inr rows \<and> map exp_id rows = [''E2'', ''E1''])"
  using list_experiences_checks_view
      [of "''P1''" "sample_store [sample_profile ''P1'' ''U1'' ''PRIVATE'']
        [sample_experience ''E1'' ''P1'' 1, sample_experience ''E2'' ''P1'' 2] []"
        "sample_profile ''P1'' ''U1'' ''PRIVATE''" None]
    list_experiences_checks_view
      [of "''P1''" "sample_store [sample_profile ''P1'' ''U1'' ''PRIVATE'']
        [sample_experience ''E1'' ''P1'' 1, sample_experience ''E2'' ''P1'' 2] []"
        "sample_profile ''P1'' ''U1'' ''PRIVATE''" "Some ''U1''"]
  by (simp add: sample_store_def sample_profile_def sample_experience_def first_def can_view_def
      get_experiences_by_profile_def)

section \<open>Creating an experience\<close>

lemma first_sort_desc:
  fixes xs :: "int list"
  assumes "xs \<noteq> []"
  shows "first (sort_key (\<lambda>d. - d) xs) = Some (Max (set xs))"
proof -
  let ?ys = "sort_key (\<lambda>d. - d) xs"
  from assms have "?ys \<noteq> []" by (metis length_sort length_0_conv)
  then obtain y ys where ys: "?ys = y # ys" by (cases ?ys) auto
  have "sorted (map (\<lambda>d. - d) ?ys)" by (rule sorted_sort_key)
  with ys have le: "\<forall>z \<in> set ys. z \<le> y" by simp
  have set: "set xs = insert y (set ys)" using ys by (metis set_sort list.simps(15))
  have "Max (set xs) = y"
    by (rule Max_eqI) (use le set in auto)
  with ys show ?thesis by (simp add: first_def)
qed

text \<open>
  C7, as the code computes it. An authorized create succeeds and stores the experience. A
  display order other than 0 in the input is kept; with 0 (the schema's default, whether
  sent or not) the experience gets the highest display order of the profile's experiences
  plus 1, or 0 when the profile has none.
\<close>

theorem create_experience_display_order:
  assumes "first (filter (\<lambda>p. prof_id p = pid) (profiles s)) = Some profile"
    and "prof_user_id profile = uid"
    and "new_id \<notin> exp_id ` set (experiences s)"
  shows "\<exists>s' e. create_experience s new_id pid uid d = Inr (s', e)
           \<and> e \<in> set (experiences s')
           \<and> exp_display_order e =
               (let orders = map exp_display_order
                      (filter (\<lambda>x. exp_profile_id x = pid) (experiences s))
                in if ec_display_order d \<noteq> 0 then ec_display_order d
                   else if orders = [] then 0 else Max (set orders) + 1)"
proof (cases "filter (\<lambda>x. exp_profile_id x = pid) (experiences s) = []")
  case True
  with assms show ?thesis
    by (simp add: create_experience_def Let_def first_def update_completeness_def)
next
  case False
  then have "map exp_display_order (filter (\<lambda>x. exp_profile_id x = pid) (experiences s)) \<noteq> []"
    by simp
  from first_sort_desc [OF this] False assms show ?thesis
    by (simp add: create_experience_def Let_def update_completeness_def)
qed

theorem create_experience_display_order_witness:
  "(\<exists>s' e. create_experience
       (sample_store [sample_profile ''P1'' ''U1'' ''PRIVATE''] [sample_experience ''E1'' ''P1'' 5] [])
       ''E2'' ''P1'' ''U1'' (sample_create 0) = Inr (s', e) \<and> e \<in> set (experiences s') \<and> exp_display_order e = 6)
   \<and> (\<exists>s' e. create_experience
       (sample_store [sample_profile ''P1'' ''U1'' ''PRIVATE''] [sample_experience ''E1'' ''P1'' 5] [])
       ''E2'' ''P1'' ''U1'' (sample_create 3) = Inr (s', e) \<and> e \<in> set (experiences s') \<and> exp_display_order e = 3)
   \<and> (\<exists>s' e. create_experience
       (sample_store [sample_profile ''P1'' ''U1'' ''PRIVATE''] [] [])
       ''E2'' ''P1'' ''U1'' (sample_create 0) = Inr (s', e) \<and> e \<in> set (experiences s') \<and> exp_display_order e = 0)"
  using create_experience_display_order
      [of "''P1''" "sample_store [sample_profile ''P1'' ''U1'' ''PRIVATE''] [sample_experience ''E1'' ''P1'' 5] []"
        "sample_profile ''P1'' ''U1'' ''PRIVATE''" "''U1''" "''E2''" "sample_create 0"]
    create_experience_display_order
      [of "''P1''" "sample_store [sample_profile ''P1'' ''U1'' ''PRIVATE''] [sample_experience ''E1'' ''P1'' 5] []"
        "sample_profile ''P1'' ''U1'' ''PRIVATE''" "''U1''" "''E2''" "sample_create 3"]
    create_experience_display_order
      [of "''P1''" "sample_store [sample_profile ''P1'' ''U1'' ''PRIVATE''] [] []"
        "sample_profile ''P1'' ''U1'' ''PRIVATE''" "''U1''" "''E2''" "sample_create 0"]
  by (simp add: sample_store_def sample_profile_def sample_experience_def sample_create_def first_def)

text \<open>
  A display order of 0 in the input does not override the default: with an experience of
  display order 5 stored, the new one gets 6.
\<close>

theorem create_experience_explicit_zero_counterexample:
  "ec_display_order (sample_create 0) = 0
   \<and> (case create_experience
       (sample_store [sample_profile ''P1'' ''U1'' ''PRIVATE''] [sample_experience ''E1'' ''P1'' 5] [])
       ''E2'' ''P1'' ''U1'' (sample_create 0) of
      Inl err \<Rightarrow> False
    | Inr (s', e) \<Rightarrow> exp_display_order e = 6 \<and> exp_display_order e \<noteq> ec_display_order (sample_create 0))"
  by (simp add: create_experience_def sample_store_def sample_profile_def sample_experience_def
      sample_create_def first_def Let_def update_completeness_def)

section \<open>Current positions and end dates\<close>

text \<open>Create: a request that sets \<^verbatim>\<open>is_current\<close> and carries an end date is refused
  by the schema, so no created experience has both.\<close>

lemma validate_ExperienceCreate_result:
  "validate_ExperienceCreate d = Inr d' \<Longrightarrow> d' = d \<and> \<not> (ec_is_current d \<and> ec_end_date d \<noteq> None)"
  by (auto simp: validate_ExperienceCreate_def Let_def field_error_def passes_def
      validate_current_position_def validate_end_date_def split: if_splits option.splits sum.splits)

lemma validate_ExperienceCreate_rejects:
  "ec_is_current d \<Longrightarrow> ec_end_date d \<noteq> None
   \<Longrightarrow> \<exists>errors. validate_ExperienceCreate d = Inl (ValidationError errors)"
  by (auto simp: validate_ExperienceCreate_def Let_def field_error_def passes_def
      validate_current_position_def validate_end_date_def split: if_splits option.splits sum.splits)

lemma api_create_experience_current_has_no_end:
  "api_create_experience s new_id pid uid body = Inr (s', e)
   \<Longrightarrow> \<not> (exp_is_current e \<and> exp_end_date e \<noteq> None)"
  by (auto simp: api_create_experience_def create_experience_def Let_def
      dest!: validate_ExperienceCreate_result split: sum.splits option.splits if_splits)

lemma api_create_experience_rejects:
  "ec_is_current body \<Longrightarrow> ec_end_date body \<noteq> None
   \<Longrightarrow> \<exists>errors. api_create_experience s new_id pid uid body = Inl (ValidationError errors)"
  using validate_ExperienceCreate_rejects [of body] by (auto simp: api_create_experience_def)

text \<open>
  C2 on the update path. The update schema validates neither field, and the service
  copies both: an update that sets \<^verbatim>\<open>is_current\<close> and an end date succeeds and stores an
  experience that is current and has an end date.
\<close>

theorem api_update_experience_current_with_end_date:
  "(case api_update_experience
       (sample_store [sample_profile ''P1'' ''U1'' ''PRIVATE''] [sample_experience ''E1'' ''P1'' 0] [])
       ''E1'' ''U1'' (empty_update\<lparr>eu_end_date := Some (Some 738000), eu_is_current := Some (Some True)\<rparr>) of
      Inl err \<Rightarrow> False
    | Inr (s', e) \<Rightarrow> exp_is_current e \<and> exp_end_date e = Some 738000 \<and> experiences s' = [e])"
  by (simp add: api_update_experience_def validate_ExperienceUpdate_def update_experience_def
      sample_store_def sample_profile_def sample_experience_def empty_update_def first_def Let_def
      update_completeness_def field_error_def max_length_def set_value_def passes_def
      validate_company_size_def validate_employment_type_def sets_null_def set_required_def
      set_nullable_def)

section \<open>Slug generation\<close>

lemma hex_digit_mem: "d < 16 \<Longrightarrow> hex_digit d \<in> set ''0123456789abcdef''"
  unfolding hex_digit_def by (rule nth_mem) simp

lemma hex_byte_digits:
  "length (hex_byte b) = 2 \<and> list_all (\<lambda>c. c \<in> set ''0123456789abcdef'') (hex_byte b)"
proof -
  have "unat b < 2 ^ LENGTH(8)" by (rule unsigned_less)
  then have "unat b < 256" by simp
  then have "unat b div 16 < 16" "unat b mod 16 < 16" by simp_all
  then show ?thesis
    using hex_digit_mem [of "unat b div 16"] hex_digit_mem [of "unat b mod 16"]
    by (simp add: hex_byte_def)
qed

lemma token_hex_digits:
  "length (token_hex [b1, b2, b3]) = 6
   \<and> list_all (\<lambda>c. c \<in> set ''0123456789abcdef'') (token_hex [b1, b2, b3])"
  using hex_byte_digits [of b1] hex_byte_digits [of b2] hex_byte_digits [of b3]
  by (simp add: token_hex_def)

lemma hex_suffixed_append:
  "length t = 6 \<Longrightarrow> list_all (\<lambda>c. c \<in> set ''0123456789abcdef'') t
   \<Longrightarrow> hex_suffixed (base @ ''-'' @ t)"
  by (simp add: hex_suffixed_def)

lemma generate_slug_named:
  "truthy (usr_name u) \<Longrightarrow>
   generate_slug (Some u) self_id (b1, b2, b3) =
     hyphenate (strip (filter slug_char (lower (the (usr_name u))))) @ ''-'' @ token_hex [b1, b2, b3]"
  by (simp add: generate_slug_def Let_def)

lemma generate_slug_fallback:
  "self_user = None \<or> \<not> truthy (usr_name (the self_user))
   \<Longrightarrow> generate_slug self_user self_id entropy = lower (py_str self_id)"
  by (auto simp: generate_slug_def)

lemma generate_slug_named_suffixed:
  assumes "truthy (usr_name u)"
  shows "hex_suffixed (generate_slug (Some u) self_id entropy)"
proof -
  obtain b1 b2 b3 where e: "entropy = (b1, b2, b3)" by (cases entropy) auto
  show ?thesis
    unfolding e generate_slug_named [OF assms]
    using token_hex_digits [of b1 b2 b3] by (intro hex_suffixed_append) simp_all
qed

text \<open>On an object whose owner is loaded and has a display name, \<^verbatim>\<open>generate_slug\<close> does
  what its documentation says: the result ends with a hyphen and six random hexadecimal
  digits (lemma \<open>generate_slug_named_suffixed\<close>), as for this owner.\<close>

lemma generate_slug_john:
  "generate_slug (Some \<lparr>usr_id = ''U1'', usr_name = Some ''John  Doe!''\<rparr>) None (26, 43, 60)
   = ''john-doe-1a2b3c''"
  by code_simp

text \<open>On the object \<^verbatim>\<open>create_profile\<close> calls it on, it takes the fallback branch and prints
  the unassigned identifier.\<close>

lemma lower_None: "lower ''None'' = ''none''"
  by code_simp

lemma generate_slug_unassigned: "generate_slug None None entropy = ''none''"
  by (simp add: generate_slug_def py_str_def lower_None)

lemma not_suffixed_none: "\<not> hex_suffixed ''none''"
  by (simp add: hex_suffixed_def)

text \<open>So every slug that profile creation generates is \<^verbatim>\<open>none\<close>, followed by a counter when
  that is taken; a slug supplied in the request is stored as it is.\<close>

lemma create_profile_generated_slug:
  assumes "create_profile s entropy new_id user_id d = Inr (s', p)"
    and "\<not> truthy (pc_slug d)"
  shows "prof_slug p = Some ''none''
       \<or> (\<exists>k \<ge> 1. prof_slug p = Some (''none'' @ ''-'' @ str_nat k))"
proof -
  from assms have "prof_slug p = Some (unique_slug (profiles s) ''none'' ''none'' 1)"
    by (auto simp: create_profile_def Let_def generate_slug_unassigned
        split: option.splits if_splits)
  with unique_slug_result [of "profiles s" "''none''" "''none''" 1] show ?thesis by auto
qed

lemma create_profile_explicit_slug:
  assumes "create_profile s entropy new_id user_id d = Inr (s', p)"
    and "truthy (pc_slug d)"
  shows "prof_slug p = pc_slug d"
proof -
  from assms(2) obtain sl where sl: "pc_slug d = Some sl"
    by (cases "pc_slug d") (auto simp: truthy_def)
  from assms sl have "\<not> slug_taken (profiles s) sl"
    by (auto simp: create_profile_def slug_taken_def split: option.splits if_splits)
  then have "unique_slug (profiles s) sl sl 1 = sl" by (rule unique_slug_free)
  with assms sl show ?thesis
    by (auto simp: create_profile_def Let_def split: option.splits if_splits)
qed

lemma create_profile_john_eval:
  "create_profile \<lparr>users = [\<lparr>usr_id = ''U1'', usr_name = Some ''John  Doe!''\<rparr>], profiles = [],
        experiences = [], projects = []\<rparr>
      (26, 43, 60) ''01HZX5K3M9Q2R7T8V4W6Y0ABCD'' ''U1'' (sample_profile_create None)
   = Inr (\<lparr>users = [\<lparr>usr_id = ''U1'', usr_name = Some ''John  Doe!''\<rparr>],
           profiles = [(sample_profile ''01HZX5K3M9Q2R7T8V4W6Y0ABCD'' ''U1'' ''PRIVATE'')
              \<lparr>prof_slug := Some ''none''\<rparr>],
           experiences = [], projects = []\<rparr>,
          (sample_profile ''01HZX5K3M9Q2R7T8V4W6Y0ABCD'' ''U1'' ''PRIVATE'')
              \<lparr>prof_slug := Some ''none''\<rparr>)"
  by (simp add: create_profile_def first_def sample_profile_create_def truthy_def
      generate_slug_unassigned unique_slug_free slug_taken_def
      calculate_completeness_def sample_profile_def Let_def)

text \<open>
  C8 at a stored owner with a display name. Creating the profile of the user named
  \<^verbatim>\<open>John  Doe!\<close> without a slug in the request succeeds and stores the slug \<^verbatim>\<open>none\<close>: it
  is not derived from the name and ends with no random suffix, whatever the random
  bytes.
\<close>

theorem create_profile_generated_slug_none:
  "(case create_profile \<lparr>users = [\<lparr>usr_id = ''U1'', usr_name = Some ''John  Doe!''\<rparr>], profiles = [],
        experiences = [], projects = []\<rparr>
      (26, 43, 60) ''01HZX5K3M9Q2R7T8V4W6Y0ABCD'' ''U1'' (sample_profile_create None) of
      Inl err \<Rightarrow> False
    | Inr (s', p) \<Rightarrow> prof_slug p = Some ''none'' \<and> \<not> hex_suffixed (the (prof_slug p)))"
  by (simp add: create_profile_john_eval not_suffixed_none)

section \<open>Reordering experiences\<close>

lemma last_pos_eq:
  "i < length xs \<Longrightarrow> xs ! i = x \<Longrightarrow> x \<notin> set (drop (Suc i) xs) \<Longrightarrow> last_pos xs x = i"
proof (induction xs arbitrary: i)
  case Nil
  then show ?case by simp
next
  case (Cons y ys)
  show ?case
  proof (cases i)
    case 0
    with Cons.prems show ?thesis by simp
  next
    case (Suc j)
    with Cons.prems have j: "j < length ys" "ys ! j = x" "x \<notin> set (drop (Suc j) ys)" by simp_all
    then have "x \<in> set ys" by (metis nth_mem)
    with Cons.IH [OF j] Suc show ?thesis by simp
  qed
qed

lemma last_pos_less: "x \<in> set xs \<Longrightarrow> last_pos xs x < length xs \<and> xs ! last_pos xs x = x"
  by (induction xs) auto

lemma reorder_loop_rows:
  "reorder_loop pid emap n pairs rows = map (reorder_row pid emap n pairs) rows"
proof (induction pairs arbitrary: rows)
  case Nil
  show ?case by simp
next
  case (Cons a pairs)
  obtain i x where a: "a = (i, x)" by (cases a)
  show ?case
    unfolding a by (simp add: Cons.IH assign_display_order_def)
qed



lemma reorder_row_enumerate:
  "reorder_row pid emap n (enumerate k ids) e =
     (if exp_profile_id e = pid \<and> exp_id e \<in> dom emap \<and> exp_id e \<in> set ids
      then e\<lparr>exp_display_order := n - int (k + last_pos ids (exp_id e))\<rparr> else e)"
proof (induction ids arbitrary: k e)
  case Nil
  show ?case by simp
next
  case (Cons x xs)
  show ?case
  proof (cases "x \<in> dom emap \<and> exp_id e = x \<and> exp_profile_id e = pid")
    case True
    then have step: "reorder_row pid emap n (enumerate k (x # xs)) e
        = reorder_row pid emap n (enumerate (Suc k) xs) (e\<lparr>exp_display_order := n - int k\<rparr>)"
      by simp
    show ?thesis
    proof (cases "x \<in> set xs")
      case in_xs: True
      with True show ?thesis unfolding step Cons.IH by simp
    next
      case not_in_xs: False
      with True show ?thesis unfolding step Cons.IH by simp
    qed
  next
    case False
    then have step: "reorder_row pid emap n (enumerate k (x # xs)) e
        = reorder_row pid emap n (enumerate (Suc k) xs) e"
      by (simp only: enumerate_simps reorder_row.simps if_False)
    show ?thesis
    proof (cases "exp_id e \<in> set xs")
      case in_xs: True
      then show ?thesis unfolding step Cons.IH by simp
    next
      case not_in_xs: False
      with \<open>\<not> (x \<in> dom emap \<and> exp_id e = x \<and> exp_profile_id e = pid)\<close> show ?thesis
        unfolding step Cons.IH by auto
    qed
  qed
qed


lemma row_in_experience_map:
  "e \<in> set rows \<Longrightarrow> exp_profile_id e = pid
   \<Longrightarrow> exp_id e \<in> dom (map_of (rev (map (\<lambda>e. (exp_id e, e))
          (filter (\<lambda>e. exp_profile_id e = pid) rows))))"
proof -
  assume "e \<in> set rows" "exp_profile_id e = pid"
  then have "(exp_id e, e) \<in> set (rev (map (\<lambda>e. (exp_id e, e))
          (filter (\<lambda>e. exp_profile_id e = pid) rows)))"
    by (simp add: image_iff)
  then obtain v where "map_of (rev (map (\<lambda>e. (exp_id e, e))
          (filter (\<lambda>e. exp_profile_id e = pid) rows))) (exp_id e) = Some v"
    by (blast dest: weak_map_of_SomeI)
  then show ?thesis by (rule domI)
qed

lemma reorder_experiences_rows:
  assumes "first (filter (\<lambda>p. prof_id p = pid) (profiles s)) = Some profile"
    and "prof_user_id profile = uid"
  shows "reorder_experiences s pid uid ids =
      Inr (s\<lparr>experiences := map (\<lambda>e. if exp_profile_id e = pid \<and> exp_id e \<in> set ids
               then e\<lparr>exp_display_order := int (length ids) - int (last_pos ids (exp_id e))\<rparr> else e)
             (experiences s)\<rparr>,
           sort_key (\<lambda>e. - exp_display_order e) (filter (\<lambda>e. exp_profile_id e = pid)
             (map (\<lambda>e. if exp_profile_id e = pid \<and> exp_id e \<in> set ids
               then e\<lparr>exp_display_order := int (length ids) - int (last_pos ids (exp_id e))\<rparr> else e)
             (experiences s))))"
proof -
  let ?emap = "map_of (rev (map (\<lambda>e. (exp_id e, e))
          (filter (\<lambda>e. exp_profile_id e = pid) (experiences s))))"
  have eq: "map (reorder_row pid ?emap (int (length ids)) (enumerate 0 ids)) (experiences s)
      = map (\<lambda>e. if exp_profile_id e = pid \<and> exp_id e \<in> set ids
          then e\<lparr>exp_display_order := int (length ids) - int (last_pos ids (exp_id e))\<rparr> else e)
        (experiences s)"
  proof (rule map_cong [OF refl])
    fix e assume e: "e \<in> set (experiences s)"
    show "reorder_row pid ?emap (int (length ids)) (enumerate 0 ids) e
      = (if exp_profile_id e = pid \<and> exp_id e \<in> set ids
          then e\<lparr>exp_display_order := int (length ids) - int (last_pos ids (exp_id e))\<rparr> else e)"
    proof (cases "exp_profile_id e = pid")
      case True
      with row_in_experience_map [OF e True] show ?thesis
        by (simp add: reorder_row_enumerate)
    next
      case False
      then show ?thesis by (simp add: reorder_row_enumerate)
    qed
  qed
  from assms show ?thesis
    by (simp add: reorder_experiences_def Let_def reorder_loop_rows eq)
qed


text \<open>
  C6, as the code computes it. An authorized reorder succeeds and changes nothing but
  display orders of the profile's experiences. An experience of the profile whose
  identifier is in the list gets the length of the list minus the position of the
  identifier's last occurrence in it (the only position when it occurs once). Rows of
  other profiles, listed or not, and experiences of the profile that are not listed stay
  as they were.
\<close>

theorem reorder_experiences_assigns:
  assumes "first (filter (\<lambda>p. prof_id p = pid) (profiles s)) = Some profile"
    and "prof_user_id profile = uid"
  shows "\<exists>s' listing. reorder_experiences s pid uid ids = Inr (s', listing)
      \<and> users s' = users s \<and> profiles s' = profiles s \<and> projects s' = projects s
      \<and> length (experiences s') = length (experiences s)
      \<and> (\<forall>j < length (experiences s).
            (\<forall>i < length ids.
                exp_profile_id (experiences s ! j) = pid \<and> ids ! i = exp_id (experiences s ! j)
                \<and> exp_id (experiences s ! j) \<notin> set (drop (Suc i) ids)
                \<longrightarrow> experiences s' ! j
                    = (experiences s ! j)\<lparr>exp_display_order := int (length ids) - int i\<rparr>)
          \<and> (exp_profile_id (experiences s ! j) \<noteq> pid \<or> exp_id (experiences s ! j) \<notin> set ids
                \<longrightarrow> experiences s' ! j = experiences s ! j))"
proof -
  define G :: "Experience \<Rightarrow> Experience" where "G = (\<lambda>e. if exp_profile_id e = pid \<and> exp_id e \<in> set ids
      then e\<lparr>exp_display_order := int (length ids) - int (last_pos ids (exp_id e))\<rparr> else e)"
  define listing where
    "listing = sort_key (\<lambda>e. - exp_display_order e)
       (filter (\<lambda>e. exp_profile_id e = pid) (map G (experiences s)))"
  have r: "reorder_experiences s pid uid ids = Inr (s\<lparr>experiences := map G (experiences s)\<rparr>, listing)"
    unfolding G_def listing_def by (rule reorder_experiences_rows [OF assms])
  have a: "map G (experiences s) ! j = (experiences s ! j)\<lparr>exp_display_order := int (length ids) - int i\<rparr>"
    if "j < length (experiences s)" "i < length ids" "exp_profile_id (experiences s ! j) = pid"
      "ids ! i = exp_id (experiences s ! j)" "exp_id (experiences s ! j) \<notin> set (drop (Suc i) ids)"
    for i j
  proof -
    from that have "exp_id (experiences s ! j) \<in> set ids" by (metis nth_mem)
    moreover from that have "last_pos ids (exp_id (experiences s ! j)) = i"
      by (simp add: last_pos_eq)
    ultimately show ?thesis using that by (simp add: G_def)
  qed
  have b: "map G (experiences s) ! j = experiences s ! j"
    if "j < length (experiences s)"
      "exp_profile_id (experiences s ! j) \<noteq> pid \<or> exp_id (experiences s ! j) \<notin> set ids" for j
    using that by (auto simp: G_def)
  let ?s' = "s\<lparr>experiences := map G (experiences s)\<rparr>"
  have "reorder_experiences s pid uid ids = Inr (?s', listing)
      \<and> users ?s' = users s \<and> profiles ?s' = profiles s \<and> projects ?s' = projects s
      \<and> length (experiences ?s') = length (experiences s)
      \<and> (\<forall>j < length (experiences s).
            (\<forall>i < length ids.
                exp_profile_id (experiences s ! j) = pid \<and> ids ! i = exp_id (experiences s ! j)
                \<and> exp_id (experiences s ! j) \<notin> set (drop (Suc i) ids)
                \<longrightarrow> experiences ?s' ! j
                    = (experiences s ! j)\<lparr>exp_display_order := int (length ids) - int i\<rparr>)
          \<and> (exp_profile_id (experiences s ! j) \<noteq> pid \<or> exp_id (experiences s ! j) \<notin> set ids
                \<longrightarrow> experiences ?s' ! j = experiences s ! j))"
    using r a b by simp
  then show ?thesis by blast
qed



theorem reorder_experiences_assigns_witness:
  "\<exists>s' listing. reorder_experiences
      (sample_store [sample_profile ''P1'' ''U1'' ''PRIVATE'', sample_profile ''P2'' ''U2'' ''PRIVATE'']
         [sample_experience ''A'' ''P1'' 7, sample_experience ''B'' ''P1'' 8,
          sample_experience ''C'' ''P1'' 9, sample_experience ''X'' ''P2'' 4] [])
      ''P1'' ''U1'' [''B'', ''X'', ''A'', ''nope''] = Inr (s', listing)
    \<and> map exp_display_order (experiences s') = [4 - 2, 4 - 0, 9, 4]"
proof -
  let ?s = "sample_store [sample_profile ''P1'' ''U1'' ''PRIVATE'', sample_profile ''P2'' ''U2'' ''PRIVATE'']
         [sample_experience ''A'' ''P1'' 7, sample_experience ''B'' ''P1'' 8,
          sample_experience ''C'' ''P1'' 9, sample_experience ''X'' ''P2'' 4] []"
  let ?ids = "[''B'', ''X'', ''A'', ''nope'']"
  have auth: "first (filter (\<lambda>p. prof_id p = ''P1'') (profiles ?s)) = Some (sample_profile ''P1'' ''U1'' ''PRIVATE'')"
    "prof_user_id (sample_profile ''P1'' ''U1'' ''PRIVATE'') = ''U1''"
    by (simp_all add: sample_store_def sample_profile_def first_def)
  have rows: "experiences ?s ! 0 = sample_experience ''A'' ''P1'' 7"
    "experiences ?s ! 1 = sample_experience ''B'' ''P1'' 8"
    "experiences ?s ! 2 = sample_experience ''C'' ''P1'' 9"
    "experiences ?s ! 3 = sample_experience ''X'' ''P2'' 4"
    "length (experiences ?s) = 4"
    by (simp_all add: sample_store_def)
  from reorder_experiences_assigns [OF auth, of ?ids]
  obtain s' listing where
    r: "reorder_experiences ?s ''P1'' ''U1'' ?ids = Inr (s', listing)"
    and len: "length (experiences s') = length (experiences ?s)"
    and listed: "\<And>j i. j < length (experiences ?s) \<Longrightarrow> i < length ?ids \<Longrightarrow>
          exp_profile_id (experiences ?s ! j) = ''P1'' \<and> ?ids ! i = exp_id (experiences ?s ! j)
            \<and> exp_id (experiences ?s ! j) \<notin> set (drop (Suc i) ?ids)
          \<Longrightarrow> experiences s' ! j
              = (experiences ?s ! j)\<lparr>exp_display_order := int (length ?ids) - int i\<rparr>"
    and kept: "\<And>j. j < length (experiences ?s) \<Longrightarrow>
          exp_profile_id (experiences ?s ! j) \<noteq> ''P1'' \<or> exp_id (experiences ?s ! j) \<notin> set ?ids
          \<Longrightarrow> experiences s' ! j = experiences ?s ! j"
    by blast
  have e0: "exp_display_order (experiences s' ! 0) = 4 - 2"
    using listed [of 0 2, unfolded rows] by (simp add: sample_experience_def)
  have e1: "exp_display_order (experiences s' ! 1) = 4 - 0"
    using listed [of 1 0, unfolded rows] by (simp add: sample_experience_def)
  have e2: "exp_display_order (experiences s' ! 2) = 9"
    using kept [of 2, unfolded rows] by (simp add: sample_experience_def)
  have e3: "exp_display_order (experiences s' ! 3) = 4"
    using kept [of 3, unfolded rows] by (simp add: sample_experience_def)
  have "map exp_display_order (experiences s') = [4 - 2, 4 - 0, 9, 4]"
  proof (rule nth_equalityI)
    show "length (map exp_display_order (experiences s')) = length [4 - 2, 4 - 0, 9, 4 :: int]"
      using len by (simp add: rows)
    fix i assume "i < length (map exp_display_order (experiences s'))"
    then have "i < 4" using len by (simp add: rows)
    then consider "i = 0" | "i = 1" | "i = 2" | "i = 3" by linarith
    then show "map exp_display_order (experiences s') ! i = [4 - 2, 4 - 0, 9, 4] ! i"
      using len e0 e1 e2 e3 by cases (simp_all add: rows)
  qed
  with r show ?thesis by (intro exI conjI)
qed

text \<open>
  An identifier listed twice: the experience occurs at position 0 of a list of length 2
  and ends with display order 1, the value of the later position.
\<close>

theorem reorder_experiences_duplicate_counterexample:
  "(case reorder_experiences
      (sample_store [sample_profile ''P1'' ''U1'' ''PRIVATE''] [sample_experience ''A'' ''P1'' 7] [])
      ''P1'' ''U1'' [''A'', ''A''] of
      Inl err \<Rightarrow> False
    | Inr (s', listing) \<Rightarrow>
        [''A'', ''A''] ! 0 = ''A''
        \<and> map exp_display_order (experiences s') = [1]
        \<and> map exp_display_order (experiences s') \<noteq> [int (length [''A'', ''A'']) - 0])"
proof -
  let ?s = "sample_store [sample_profile ''P1'' ''U1'' ''PRIVATE''] [sample_experience ''A'' ''P1'' 7] []"
  have auth: "first (filter (\<lambda>p. prof_id p = ''P1'') (profiles ?s)) = Some (sample_profile ''P1'' ''U1'' ''PRIVATE'')"
    "prof_user_id (sample_profile ''P1'' ''U1'' ''PRIVATE'') = ''U1''"
    by (simp_all add: sample_store_def sample_profile_def first_def)
  show ?thesis
    unfolding reorder_experiences_rows [OF auth]
    by (simp add: sample_store_def sample_experience_def)
qed

section \<open>Reordering, then listing\<close>

lemma last_pos_nth: "distinct xs \<Longrightarrow> i < length xs \<Longrightarrow> last_pos xs (xs ! i) = i"
proof (rule last_pos_eq)
  assume d: "distinct xs" and i: "i < length xs"
  show "i < length xs" by (rule i)
  show "xs ! i = xs ! i" by (rule refl)
  from i have "xs = take i xs @ xs ! i # drop (Suc i) xs" by (rule id_take_nth_drop)
  with d have "distinct (take i xs @ xs ! i # drop (Suc i) xs)" by simp
  then show "xs ! i \<notin> set (drop (Suc i) xs)" by simp
qed

lemma map_last_pos: "distinct xs \<Longrightarrow> map (last_pos xs) xs = [0..<length xs]"
  by (rule nth_equalityI) (simp_all add: last_pos_nth)

lemma inj_on_last_pos: "inj_on (last_pos xs) (set xs)"
  by (rule inj_on_inverseI [where g = "\<lambda>i. xs ! i"]) (simp add: last_pos_less)

lemma listed_in_position_order:
  assumes "distinct ids" and "distinct (map ident rows)" and "set (map ident rows) = set ids"
    and "sorted (map (\<lambda>r. last_pos ids (ident r)) rows)"
  shows "map ident rows = ids"
proof -
  let ?pos = "last_pos ids"
  have inj: "inj_on ?pos (set (map ident rows) \<union> set ids)"
    using inj_on_last_pos [of ids] assms(3) by simp
  have "sorted (map ?pos (map ident rows))" using assms(4) by (simp add: o_def)
  moreover have "distinct (map ?pos (map ident rows))"
    using assms(2,3) inj_on_last_pos [of ids] by (simp only: distinct_map)
  moreover have "sorted (map ?pos ids)" "distinct (map ?pos ids)"
    using assms(1) by (simp_all add: map_last_pos)
  moreover have "set (map ?pos (map ident rows)) = set (map ?pos ids)"
    using assms(3) by (simp only: set_map)
  ultimately have "map ?pos (map ident rows) = map ?pos ids"
    by (rule sorted_distinct_set_unique)
  with inj show ?thesis by (simp only: inj_on_map_eq_map)
qed

text \<open>A permutation of rows that carry the positions of their identifiers, sorted by
  position, lists the identifiers in the order of the list.\<close>

lemma permuted_rows_in_position_order:
  assumes "distinct ids" and "distinct (map ident own)" and "set (map ident own) = set ids"
    and "mset rows = mset own"
    and "sorted (map (\<lambda>r. last_pos ids (ident r)) rows)"
  shows "map ident rows = ids"
proof -
  from assms(4) have m: "mset (map ident rows) = mset (map ident own)" by simp
  from m have "set (map ident rows) = set (map ident own)" by (rule mset_eq_setD)
  moreover have "distinct (map ident rows)"
    using mset_eq_imp_distinct_iff [OF m] assms(2) by simp
  ultimately show ?thesis using assms(1,3,5) by (intro listed_in_position_order) simp_all
qed

lemma can_view_owner: "can_view p (Some (prof_user_id p))"
  by (simp add: can_view_def)


lemma reorder_experiences_listing:
  assumes auth: "first (filter (\<lambda>p. prof_id p = pid) (profiles s)) = Some profile"
      "prof_user_id profile = uid"
    and pk: "distinct (map exp_id (experiences s))"
    and ids: "distinct ids"
      "set (map exp_id (filter (\<lambda>e. exp_profile_id e = pid) (experiences s))) = set ids"
  shows "\<exists>s' returned rows. reorder_experiences s pid uid ids = Inr (s', returned)
      \<and> get_experiences_by_profile s' pid (Some uid) = Inr rows
      \<and> map exp_id rows = ids \<and> map exp_id returned = ids
      \<and> map exp_display_order rows = map (\<lambda>x. int (length ids) - int (last_pos ids x)) ids"
proof -
  define G :: "Experience \<Rightarrow> Experience" where "G = (\<lambda>e. if exp_profile_id e = pid \<and> exp_id e \<in> set ids
      then e\<lparr>exp_display_order := int (length ids) - int (last_pos ids (exp_id e))\<rparr> else e)"
  define own where "own = filter (\<lambda>e. exp_profile_id e = pid) (experiences s)"
  define s' where "s' = s\<lparr>experiences := map G (experiences s)\<rparr>"
  have G_id: "exp_id (G e) = exp_id e" and G_pid: "exp_profile_id (G e) = exp_profile_id e" for e
    by (simp_all add: G_def)
  have own': "filter (\<lambda>e. exp_profile_id e = pid) (map G (experiences s)) = map G own"
    by (simp add: own_def filter_map o_def G_pid)
  have ids_own: "map exp_id (map G own) = map exp_id own"
    by (simp add: G_id)
  have "distinct (map exp_id own)"
    unfolding own_def using pk by (rule distinct_map_filter)
  then have d_own: "distinct (map exp_id (map G own))"
    by (simp only: ids_own)
  have "set (map exp_id own) = set ids"
    unfolding own_def by (rule ids(2))
  then have set_own: "set (map exp_id (map G own)) = set ids"
    by (simp only: ids_own)
  have order: "exp_display_order r = int (length ids) - int (last_pos ids (exp_id r))"
    if "r \<in> set (map G own)" for r
  proof -
    from that obtain e where e: "e \<in> set own" "r = G e" by auto
    from e(1) have "exp_profile_id e = pid" by (simp add: own_def)
    moreover from e(1) have "exp_id e \<in> set ids" using ids(2) by (auto simp: own_def)
    ultimately show ?thesis unfolding e(2) by (simp add: G_def)
  qed
  have listed: "map exp_id rows = ids
      \<and> map exp_display_order rows = map (\<lambda>x. int (length ids) - int (last_pos ids x)) ids"
    if perm: "mset rows = mset (map G own)"
      and srt: "sorted_wrt (\<lambda>a b. exp_display_order b \<le> exp_display_order a) rows"
    for rows
  proof -
    from perm have set_rows: "set rows = set (map G own)" by (rule mset_eq_setD)
    from srt have "sorted_wrt (\<lambda>a b. last_pos ids (exp_id a) \<le> last_pos ids (exp_id b)) rows"
      by (rule sorted_wrt_mono_rel [rotated]) (simp add: order set_rows)
    then have "sorted (map (\<lambda>r. last_pos ids (exp_id r)) rows)" by (simp only: sorted_map)
    from permuted_rows_in_position_order [OF ids(1) d_own set_own perm this]
    have m: "map exp_id rows = ids" .
    have "map exp_display_order rows
        = map (\<lambda>x. int (length ids) - int (last_pos ids x)) (map exp_id rows)"
      by (simp add: order set_rows)
    with m show ?thesis by simp
  qed
  have r: "reorder_experiences s pid uid ids
      = Inr (s', sort_key (\<lambda>e. - exp_display_order e) (map G own))"
    unfolding reorder_experiences_rows [OF auth] s'_def G_def [symmetric] own' ..
  have "first (filter (\<lambda>p. prof_id p = pid) (profiles s')) = Some profile"
    using auth(1) by (simp add: s'_def)
  moreover have "can_view profile (Some uid)"
    using can_view_owner [of profile] auth(2) by simp
  moreover have "filter (\<lambda>e. exp_profile_id e = pid) (experiences s') = map G own"
    using own' by (simp add: s'_def)
  ultimately have g: "get_experiences_by_profile s' pid (Some uid)
      = Inr (sort_key (\<lambda>e. (- exp_display_order e, - exp_start_date e)) (map G own))"
    by (simp add: get_experiences_by_profile_def)
  have s1: "sorted_wrt (\<lambda>a b. exp_display_order b \<le> exp_display_order a)
      (sort_key (\<lambda>e. - exp_display_order e) (map G own))"
    using sorted_sort_key [of "\<lambda>e. - exp_display_order e" "map G own"]
    by (simp add: sorted_map)
  have s2: "sorted_wrt (\<lambda>a b. exp_display_order b \<le> exp_display_order a)
      (sort_key (\<lambda>e. (- exp_display_order e, - exp_start_date e)) (map G own))"
    using sorted_listing [of "map G own"]
    by (rule sorted_wrt_mono_rel [rotated]) auto
  have p1: "mset (sort_key (\<lambda>e. - exp_display_order e) (map G own)) = mset (map G own)"
    and p2: "mset (sort_key (\<lambda>e. (- exp_display_order e, - exp_start_date e)) (map G own))
      = mset (map G own)"
    by (rule mset_sort)+
  let ?returned = "sort_key (\<lambda>e. - exp_display_order e) (map G own)"
  let ?rows = "sort_key (\<lambda>e. (- exp_display_order e, - exp_start_date e)) (map G own)"
  have "reorder_experiences s pid uid ids = Inr (s', ?returned)
      \<and> get_experiences_by_profile s' pid (Some uid) = Inr ?rows
      \<and> map exp_id ?rows = ids \<and> map exp_id ?returned = ids
      \<and> map exp_display_order ?rows = map (\<lambda>x. int (length ids) - int (last_pos ids x)) ids"
    using listed [OF p1 s1] listed [OF p2 s2] r g by simp
  then show ?thesis by blast
qed

lemma project_step:
  assumes "distinct (map proj_id rows)"
  shows "(case get_project_by_id rows x of
            None \<Rightarrow> rows
          | Some project \<Rightarrow>
              if proj_profile_id project = pid
              then map (\<lambda>p. if proj_id p = x then p\<lparr>proj_display_order := v\<rparr> else p) rows
              else rows)
       = map (\<lambda>p. if proj_id p = x \<and> proj_profile_id p = pid
                   then p\<lparr>proj_display_order := v\<rparr> else p) rows"
proof (cases "get_project_by_id rows x")
  case None
  then have "\<forall>p \<in> set rows. proj_id p \<noteq> x"
    by (simp add: get_project_by_id_def first_filter_None)
  then have "map (\<lambda>p. if proj_id p = x \<and> proj_profile_id p = pid
                   then p\<lparr>proj_display_order := v\<rparr> else p) rows = rows"
    by (intro map_idI) simp
  with None show ?thesis by simp
next
  case (Some q)
  then have q: "q \<in> set rows" "proj_id q = x"
    using first_filter_Some [of "\<lambda>p. proj_id p = x" rows q]
    by (simp_all add: get_project_by_id_def)
  from assms have inj: "inj_on proj_id (set rows)" by (simp add: distinct_map)
  have same: "p = q" if "p \<in> set rows" "proj_id p = x" for p
    using inj that q by (auto dest: inj_onD)
  show ?thesis
  proof (cases "proj_profile_id q = pid")
    case True
    have "map (\<lambda>p. if proj_id p = x then p\<lparr>proj_display_order := v\<rparr> else p) rows
        = map (\<lambda>p. if proj_id p = x \<and> proj_profile_id p = pid
                   then p\<lparr>proj_display_order := v\<rparr> else p) rows"
      by (rule map_cong [OF refl]) (use True same in auto)
    with Some True show ?thesis by simp
  next
    case False
    have "map (\<lambda>p. if proj_id p = x \<and> proj_profile_id p = pid
                   then p\<lparr>proj_display_order := v\<rparr> else p) rows = rows"
      by (intro map_idI) (use False same in auto)
    with Some False show ?thesis by simp
  qed
qed

lemma reorder_projects_loop_rows:
  "distinct (map proj_id rows)
   \<Longrightarrow> reorder_projects_loop pid pairs rows = map (reorder_project_row pid pairs) rows"
proof (induction pairs arbitrary: rows)
  case Nil
  show ?case by simp
next
  case (Cons a pairs)
  obtain i x where a: "a = (i, x)" by (cases a)
  let ?step = "map (\<lambda>p. if proj_id p = x \<and> proj_profile_id p = pid
                   then p\<lparr>proj_display_order := int i\<rparr> else p) rows"
  have e: "map proj_id ?step = map proj_id rows" by (simp add: o_def if_distrib cong: if_cong)
  have "distinct (map proj_id ?step)" unfolding e by (rule Cons.prems)
  from Cons.IH [OF this] show ?case
    unfolding a reorder_projects_loop.simps project_step [OF Cons.prems]
    by (simp add: o_def)
qed


lemma reorder_project_row_enumerate:
  "reorder_project_row pid (enumerate k ids) p =
     (if proj_profile_id p = pid \<and> proj_id p \<in> set ids
      then p\<lparr>proj_display_order := int (k + last_pos ids (proj_id p))\<rparr> else p)"
proof (induction ids arbitrary: k p)
  case Nil
  show ?case by simp
next
  case (Cons x xs)
  show ?case
  proof (cases "proj_id p = x \<and> proj_profile_id p = pid")
    case True
    then have step: "reorder_project_row pid (enumerate k (x # xs)) p
        = reorder_project_row pid (enumerate (Suc k) xs) (p\<lparr>proj_display_order := int k\<rparr>)"
      by simp
    show ?thesis
    proof (cases "x \<in> set xs")
      case in_xs: True
      with True show ?thesis unfolding step Cons.IH by simp
    next
      case not_in_xs: False
      with True show ?thesis unfolding step Cons.IH by simp
    qed
  next
    case False
    then have step: "reorder_project_row pid (enumerate k (x # xs)) p
        = reorder_project_row pid (enumerate (Suc k) xs) p"
      by (simp only: enumerate_simps reorder_project_row.simps if_False)
    show ?thesis
    proof (cases "proj_id p \<in> set xs")
      case in_xs: True
      then show ?thesis unfolding step Cons.IH by simp
    next
      case not_in_xs: False
      with \<open>\<not> (proj_id p = x \<and> proj_profile_id p = pid)\<close> show ?thesis
        unfolding step Cons.IH by auto
    qed
  qed
qed

lemma reorder_projects_rows:
  assumes "first (filter (\<lambda>p. prof_id p = pid) (profiles s)) = Some profile"
    and "prof_user_id profile = uid"
    and "distinct (map proj_id (projects s))"
  shows "reorder_projects s pid uid ids =
      Inr (s\<lparr>projects := map (\<lambda>p. if proj_profile_id p = pid \<and> proj_id p \<in> set ids
               then p\<lparr>proj_display_order := int (last_pos ids (proj_id p))\<rparr> else p)
             (projects s)\<rparr>,
           get_profile_projects
             (s\<lparr>projects := map (\<lambda>p. if proj_profile_id p = pid \<and> proj_id p \<in> set ids
               then p\<lparr>proj_display_order := int (last_pos ids (proj_id p))\<rparr> else p)
             (projects s)\<rparr>) pid)"
proof -
  have f: "reorder_project_row pid (enumerate 0 ids)
      = (\<lambda>p. if proj_profile_id p = pid \<and> proj_id p \<in> set ids
               then p\<lparr>proj_display_order := int (last_pos ids (proj_id p))\<rparr> else p)"
    by (rule ext) (simp add: reorder_project_row_enumerate)
  from assms(1,2) show ?thesis
    by (simp add: reorder_projects_def Let_def reorder_projects_loop_rows [OF assms(3)] f)
qed

lemma sorted_project_listing:
  "sorted_wrt (\<lambda>a b. proj_display_order a \<le> proj_display_order b)
     (sort_key (\<lambda>p. (proj_display_order p, - proj_created_at p)) rows)"
proof -
  have "sorted (map (\<lambda>p. (proj_display_order p, - proj_created_at p))
          (sort_key (\<lambda>p. (proj_display_order p, - proj_created_at p)) rows))"
    by (rule sorted_sort_key)
  then have "sorted_wrt (\<lambda>a b. (proj_display_order a, - proj_created_at a)
        \<le> (proj_display_order b, - proj_created_at b))
      (sort_key (\<lambda>p. (proj_display_order p, - proj_created_at p)) rows)"
    by (simp add: sorted_map)
  then show ?thesis
    by (rule sorted_wrt_mono_rel [rotated]) auto
qed

lemma reorder_projects_listing:
  assumes auth: "first (filter (\<lambda>p. prof_id p = pid) (profiles s)) = Some profile"
      "prof_user_id profile = uid"
    and pk: "distinct (map proj_id (projects s))"
    and ids: "distinct ids"
      "set (map proj_id (filter (\<lambda>p. proj_profile_id p = pid) (projects s))) = set ids"
  shows "\<exists>s' returned. reorder_projects s pid uid ids = Inr (s', returned)
      \<and> returned = get_profile_projects s' pid
      \<and> map proj_id returned = ids
      \<and> map proj_display_order returned = map (\<lambda>x. int (last_pos ids x)) ids"
proof -
  define H :: "Project \<Rightarrow> Project" where "H = (\<lambda>p. if proj_profile_id p = pid \<and> proj_id p \<in> set ids
      then p\<lparr>proj_display_order := int (last_pos ids (proj_id p))\<rparr> else p)"
  define own where "own = filter (\<lambda>p. proj_profile_id p = pid) (projects s)"
  define s' where "s' = s\<lparr>projects := map H (projects s)\<rparr>"
  have H_id: "proj_id (H p) = proj_id p" and H_pid: "proj_profile_id (H p) = proj_profile_id p" for p
    by (simp_all add: H_def)
  have own': "filter (\<lambda>p. proj_profile_id p = pid) (map H (projects s)) = map H own"
    by (simp add: own_def filter_map o_def H_pid)
  have ids_own: "map proj_id (map H own) = map proj_id own"
    by (simp add: H_id)
  have "distinct (map proj_id own)"
    unfolding own_def using pk by (rule distinct_map_filter)
  then have d_own: "distinct (map proj_id (map H own))"
    by (simp only: ids_own)
  have "set (map proj_id own) = set ids"
    unfolding own_def by (rule ids(2))
  then have set_own: "set (map proj_id (map H own)) = set ids"
    by (simp only: ids_own)
  have order: "proj_display_order r = int (last_pos ids (proj_id r))"
    if "r \<in> set (map H own)" for r
  proof -
    from that obtain p where p: "p \<in> set own" "r = H p" by auto
    from p(1) have "proj_profile_id p = pid" by (simp add: own_def)
    moreover from p(1) have "proj_id p \<in> set ids" using ids(2) by (auto simp: own_def)
    ultimately show ?thesis unfolding p(2) by (simp add: H_def)
  qed
  let ?rows = "sort_key (\<lambda>p. (proj_display_order p, - proj_created_at p)) (map H own)"
  have perm: "mset ?rows = mset (map H own)" by (rule mset_sort)
  then have set_rows: "set ?rows = set (map H own)" by (rule mset_eq_setD)
  have "sorted_wrt (\<lambda>a b. last_pos ids (proj_id a) \<le> last_pos ids (proj_id b)) ?rows"
    using sorted_project_listing [of "map H own"]
    by (rule sorted_wrt_mono_rel [rotated]) (simp add: order)
  then have "sorted (map (\<lambda>r. last_pos ids (proj_id r)) ?rows)" by (simp only: sorted_map)
  from permuted_rows_in_position_order [OF ids(1) d_own set_own perm this]
  have m: "map proj_id ?rows = ids" .
  have "map proj_display_order ?rows = map (\<lambda>x. int (last_pos ids x)) (map proj_id ?rows)"
    using set_rows by (simp add: order)
  with m have o: "map proj_display_order ?rows = map (\<lambda>x. int (last_pos ids x)) ids" by simp
  have g: "get_profile_projects s' pid = ?rows"
    using own' by (simp add: get_profile_projects_def s'_def)
  have r: "reorder_projects s pid uid ids = Inr (s', get_profile_projects s' pid)"
    unfolding reorder_projects_rows [OF auth pk] s'_def H_def [symmetric] ..
  have "reorder_projects s pid uid ids = Inr (s', ?rows)
      \<and> ?rows = get_profile_projects s' pid
      \<and> map proj_id ?rows = ids
      \<and> map proj_display_order ?rows = map (\<lambda>x. int (last_pos ids x)) ids"
    using r g m o by simp
  then show ?thesis by blast
qed


text \<open>
  C5. Let a profile own exactly the experiences A, B, C and the projects A, B, C, stored in
  any order and with any display orders. Reordering the experiences with the list C, A, B
  and then listing them as the owner yields C, A, B, with display orders 3, 2, 1 (first
  identifier highest); reordering the projects with the same list and then listing them
  yields C, A, B as well, with display orders 0, 1, 2 (first identifier 0).
\<close>

theorem reorder_then_list_same_order:
  assumes "first (filter (\<lambda>p. prof_id p = pid) (profiles s)) = Some profile"
    and "prof_user_id profile = uid"
    and "distinct (map exp_id (experiences s))"
    and "distinct (map proj_id (projects s))"
    and "set (map exp_id (filter (\<lambda>e. exp_profile_id e = pid) (experiences s))) = {a, b, c}"
    and "set (map proj_id (filter (\<lambda>p. proj_profile_id p = pid) (projects s))) = {a, b, c}"
    and "a \<noteq> b" and "a \<noteq> c" and "b \<noteq> c"
  shows "(\<exists>s' returned rows. reorder_experiences s pid uid [c, a, b] = Inr (s', returned)
            \<and> get_experiences_by_profile s' pid (Some uid) = Inr rows
            \<and> map exp_id rows = [c, a, b] \<and> map exp_id returned = [c, a, b]
            \<and> map exp_display_order rows = [3, 2, 1])
       \<and> (\<exists>s' returned. reorder_projects s pid uid [c, a, b] = Inr (s', returned)
            \<and> returned = get_profile_projects s' pid
            \<and> map proj_id returned = [c, a, b]
            \<and> map proj_display_order returned = [0, 1, 2])"
proof -
  have d: "distinct [c, a, b]" using assms(7-9) by auto
  have e: "set (map exp_id (filter (\<lambda>e. exp_profile_id e = pid) (experiences s))) = set [c, a, b]"
    unfolding assms(5) by auto
  have p: "set (map proj_id (filter (\<lambda>p. proj_profile_id p = pid) (projects s))) = set [c, a, b]"
    unfolding assms(6) by auto
  have o1: "map (\<lambda>x. int (length [c, a, b]) - int (last_pos [c, a, b] x)) [c, a, b] = [3, 2, 1]"
    using assms(7-9) by auto
  have o2: "map (\<lambda>x. int (last_pos [c, a, b] x)) [c, a, b] = [0, 1, 2]"
    using assms(7-9) by auto
  have "\<exists>s' returned rows. reorder_experiences s pid uid [c, a, b] = Inr (s', returned)
            \<and> get_experiences_by_profile s' pid (Some uid) = Inr rows
            \<and> map exp_id rows = [c, a, b] \<and> map exp_id returned = [c, a, b]
            \<and> map exp_display_order rows = [3, 2, 1]"
    using reorder_experiences_listing [OF assms(1-3) d e] unfolding o1 .
  moreover have "\<exists>s' returned. reorder_projects s pid uid [c, a, b] = Inr (s', returned)
            \<and> returned = get_profile_projects s' pid
            \<and> map proj_id returned = [c, a, b]
            \<and> map proj_display_order returned = [0, 1, 2]"
    using reorder_projects_listing [OF assms(1,2,4) d p] unfolding o2 .
  ultimately show ?thesis by (rule conjI)
qed

theorem reorder_then_list_same_order_witness:
  "(\<exists>s' returned rows.
        reorder_experiences ordering_store ''P1'' ''U1'' [''C'', ''A'', ''B''] = Inr (s', returned)
        \<and> get_experiences_by_profile s' ''P1'' (Some ''U1'') = Inr rows
        \<and> map exp_id rows = [''C'', ''A'', ''B''] \<and> map exp_id returned = [''C'', ''A'', ''B'']
        \<and> map exp_display_order rows = [3, 2, 1])
   \<and> (\<exists>s' returned.
        reorder_projects ordering_store ''P1'' ''U1'' [''C'', ''A'', ''B''] = Inr (s', returned)
        \<and> returned = get_profile_projects s' ''P1''
        \<and> map proj_id returned = [''C'', ''A'', ''B'']
        \<and> map proj_display_order returned = [0, 1, 2])"
proof (rule reorder_then_list_same_order)
  show "first (filter (\<lambda>p. prof_id p = ''P1'') (profiles ordering_store))
      = Some (sample_profile ''P1'' ''U1'' ''PRIVATE'')"
    by (simp add: ordering_store_def sample_store_def sample_profile_def first_def)
  show "prof_user_id (sample_profile ''P1'' ''U1'' ''PRIVATE'') = ''U1''"
    by (simp add: sample_profile_def)
  show "distinct (map exp_id (experiences ordering_store))"
    by (simp add: ordering_store_def sample_store_def sample_experience_def)
  show "distinct (map proj_id (projects ordering_store))"
    by (simp add: ordering_store_def sample_store_def sample_project_def)
  show "set (map exp_id (filter (\<lambda>e. exp_profile_id e = ''P1'') (experiences ordering_store)))
      = {''A'', ''B'', ''C''}"
    by (auto simp: ordering_store_def sample_store_def sample_experience_def)
  show "set (map proj_id (filter (\<lambda>p. proj_profile_id p = ''P1'') (projects ordering_store)))
      = {''A'', ''B'', ''C''}"
    by (auto simp: ordering_store_def sample_store_def sample_project_def)
qed simp_all

end
